theory Spec2Isabelle
  imports Complex_Main "HOL-Library.Log_Nat"
begin

section \<open>Python values\<close>

text \<open>
  A Python \<open>str\<close> is a sequence of Unicode code points, so \<open>len\<close> is the length of the
  list. String literals of the source that are plain ASCII are written \<open>py ''...''\<close>.
\<close>

type_synonym pystr = "nat list"

definition py :: "string \<Rightarrow> pystr" where
  "py s = map of_char s"

text \<open>
  A Python \<open>float\<close> is an IEEE 754 binary64 value: a sign (\<open>True\<close> for negative) with a
  magnitude, an infinity, or a NaN. The magnitude is kept as the rational number the
  double stands for.
\<close>

datatype pyfloat = Finite bool rat | Infinity bool | NaN

text \<open>What \<open>response.json()\<close> can return, and what the handlers hand to \<open>jsonify\<close>.\<close>

datatype pyval =
    PNone
  | PBool bool
  | PInt int
  | PFloat pyfloat
  | PStr pystr
  | PList "pyval list"
  | PDict "(pystr \<times> pyval) list"

section \<open>Exceptions\<close>

text \<open>
  \<open>RequestException m\<close> stands for any \<open>requests.exceptions.RequestException\<close> (connection
  errors, \<open>HTTPError\<close>, ...) whose \<open>str(e)\<close> is \<open>m\<close>; \<open>KeyError k\<close> carries the missing key.
  The other constructors are the interpreter's own exceptions; their message texts are not
  modelled.
\<close>

datatype exn =
    RequestException pystr
  | KeyError pyval
  | TypeError
  | IndexError
  | AttributeError
  | OverflowError
  | ZeroDivisionError

text \<open>Sequencing of steps that may raise: the first exception ends the computation.\<close>

definition bind :: "exn + 'a \<Rightarrow> ('a \<Rightarrow> exn + 'b) \<Rightarrow> exn + 'b" where
  "bind m f = (case m of Inl e \<Rightarrow> Inl e | Inr x \<Rightarrow> f x)"

section \<open>Operations of the Python runtime used by the handlers\<close>

subsection \<open>Subscripting, \<open>dict.get\<close>, iteration, truth value\<close>

datatype subscript = Key pystr | Index int

text \<open>
  \<open>obj[k]\<close>. A dictionary from JSON has string keys only, so an integer subscript is a
  missing key. A list or string takes integer subscripts (negative ones count from the
  end); anything else is not subscriptable.
\<close>

definition seq_getitem :: "'a list \<Rightarrow> int \<Rightarrow> exn + 'a" where
  "seq_getitem xs i =
     (if 0 \<le> i \<and> i < int (length xs) then Inr (xs ! nat i)
      else if i < 0 \<and> - int (length xs) \<le> i then Inr (xs ! nat (int (length xs) + i))
      else Inl IndexError)"

fun py_getitem :: "pyval \<Rightarrow> subscript \<Rightarrow> exn + pyval" where
  "py_getitem (PDict d) (Key k) =
     (case map_of d k of Some v \<Rightarrow> Inr v | None \<Rightarrow> Inl (KeyError (PStr k)))"
| "py_getitem (PDict d) (Index i) = Inl (KeyError (PInt i))"
| "py_getitem (PList xs) (Index i) = seq_getitem xs i"
| "py_getitem (PList xs) (Key k) = Inl TypeError"
| "py_getitem (PStr s) (Index i) = bind (seq_getitem s i) (\<lambda>c. Inr (PStr [c]))"
| "py_getitem (PStr s) (Key k) = Inl TypeError"
| "py_getitem _ _ = Inl TypeError"

text \<open>\<open>obj[k1][k2]...\<close>, evaluated from the left.\<close>

fun subscripts :: "pyval \<Rightarrow> subscript list \<Rightarrow> exn + pyval" where
  "subscripts v [] = Inr v"
| "subscripts v (k # ks) = bind (py_getitem v k) (\<lambda>w. subscripts w ks)"

text \<open>\<open>obj.get(k, default)\<close>: only a dictionary has the method.\<close>

fun py_get :: "pyval \<Rightarrow> pystr \<Rightarrow> pyval \<Rightarrow> exn + pyval" where
  "py_get (PDict d) k dflt = Inr (case map_of d k of Some v \<Rightarrow> v | None \<Rightarrow> dflt)"
| "py_get _ k dflt = Inl AttributeError"

text \<open>The items a \<open>for\<close> loop visits.\<close>

fun py_iter :: "pyval \<Rightarrow> exn + pyval list" where
  "py_iter (PList xs) = Inr xs"
| "py_iter (PStr s) = Inr (map (\<lambda>c. PStr [c]) s)"
| "py_iter (PDict d) = Inr (map (\<lambda>kv. PStr (fst kv)) d)"
| "py_iter _ = Inl TypeError"

text \<open>
  \<open>obj[:5]\<close>: a list or a string gives its first five items; a dictionary or a scalar
  raises.
\<close>

fun py_slice5 :: "pyval \<Rightarrow> exn + pyval" where
  "py_slice5 (PList xs) = Inr (PList (take 5 xs))"
| "py_slice5 (PStr s) = Inr (PStr (take 5 s))"
| "py_slice5 _ = Inl TypeError"

fun py_truthy :: "pyval \<Rightarrow> bool" where
  "py_truthy PNone = False"
| "py_truthy (PBool b) = b"
| "py_truthy (PInt i) = (i \<noteq> 0)"
| "py_truthy (PFloat (Finite s m)) = (m \<noteq> 0)"
| "py_truthy (PFloat _) = True"
| "py_truthy (PStr s) = (s \<noteq> [])"
| "py_truthy (PList xs) = (xs \<noteq> [])"
| "py_truthy (PDict d) = (d \<noteq> [])"

subsection \<open>\<open>str.capitalize\<close>\<close>

text \<open>
  The case of the letters of ASCII. These two tables are applied to ASCII strings only.
\<close>

definition ascii_upper :: "nat \<Rightarrow> nat" where
  "ascii_upper c = (if 97 \<le> c \<and> c \<le> 122 then c - 32 else c)"

definition ascii_lower :: "nat \<Rightarrow> nat" where
  "ascii_lower c = (if 65 \<le> c \<and> c \<le> 90 then c + 32 else c)"

fun ascii_capitalize :: "pystr \<Rightarrow> pystr" where
  "ascii_capitalize [] = []"
| "ascii_capitalize (c # cs) = ascii_upper c # map ascii_lower cs"

text \<open>
  \<open>str.capitalize\<close> puts the first character in title case and every other character in
  lower case, by the case tables of the Unicode database that is built into the
  interpreter. On a string of ASCII characters those are the two tables above. On a
  string with a character from 128 on, the result depends on tables that are not part of
  the source (they can also change the length: \<open>U+00DF\<close> becomes \<open>Ss\<close>); there
  \<open>str.capitalize\<close> is the parameter \<open>ucd\<close>, which every handler that capitalizes takes
  as its first argument.
\<close>

definition capitalize :: "(pystr \<Rightarrow> pystr) \<Rightarrow> pystr \<Rightarrow> pystr" where
  "capitalize ucd s = (if list_all (\<lambda>c. c < 128) s then ascii_capitalize s else ucd s)"

fun py_capitalize :: "(pystr \<Rightarrow> pystr) \<Rightarrow> pyval \<Rightarrow> exn + pyval" where
  "py_capitalize ucd (PStr s) = Inr (PStr (capitalize ucd s))"
| "py_capitalize ucd _ = Inl AttributeError"

subsection \<open>Floating point: nearest double, true division, \<open>round(x, 1)\<close>\<close>

definition pow2 :: "int \<Rightarrow> rat" where
  "pow2 e = (if 0 \<le> e then 2 ^ nat e else 1 / 2 ^ nat (- e))"

text \<open>Rounding to the nearest integer, ties to the even one.\<close>

definition round_half_even :: "rat \<Rightarrow> int" where
  "round_half_even q =
     (let n = \<lfloor>q\<rfloor>; r = q - of_int n
      in if r < 1 / 2 then n else if 1 / 2 < r then n + 1 else if even n then n else n + 1)"

text \<open>For \<open>q > 0\<close>, the exponent \<open>e\<close> with \<open>2 ^ e \<le> q < 2 ^ (e + 1)\<close>.\<close>

definition floor_log2 :: "rat \<Rightarrow> int" where
  "floor_log2 q =
     (let (a, b) = quotient_of q; e = bitlen a - bitlen b
      in if pow2 e \<le> q then e else e - 1)"

text \<open>
  The binary64 value nearest to a magnitude \<open>q \<ge> 0\<close> (53 significant bits, least exponent
  \<open>-1022\<close>, ties to even); \<open>None\<close> when the rounded value is out of range.
\<close>

definition to_double :: "rat \<Rightarrow> rat option" where
  "to_double q =
     (if q = 0 then Some 0
      else let e = max (floor_log2 q) (- 1022);
               ulp = pow2 (e - 52);
               r = of_int (round_half_even (q / ulp)) * ulp
           in if pow2 1024 \<le> r then None else Some r)"

text \<open>\<open>float(i)\<close> for an \<open>int\<close>, as the arithmetic operators convert it.\<close>

definition float_of_int :: "int \<Rightarrow> exn + pyfloat" where
  "float_of_int i =
     (case to_double (of_int \<bar>i\<bar>) of
        Some r \<Rightarrow> Inr (Finite (i < 0) r)
      | None \<Rightarrow> Inl OverflowError)"

text \<open>\<open>a / b\<close> on two \<open>int\<close>s: the correctly rounded quotient.\<close>

definition int_truediv :: "int \<Rightarrow> int \<Rightarrow> exn + pyfloat" where
  "int_truediv a b =
     (if b = 0 then Inl ZeroDivisionError
      else case to_double (of_int \<bar>a\<bar> / of_int \<bar>b\<bar>) of
             Some r \<Rightarrow> Inr (Finite ((a < 0) \<noteq> (b < 0)) r)
           | None \<Rightarrow> Inl OverflowError)"

text \<open>\<open>x / y\<close> on two \<open>float\<close>s: a zero divisor raises, the rest is IEEE division.\<close>

fun float_truediv :: "pyfloat \<Rightarrow> pyfloat \<Rightarrow> exn + pyfloat" where
  "float_truediv x (Finite t d) =
     (if d = 0 then Inl ZeroDivisionError
      else case x of
             NaN \<Rightarrow> Inr NaN
           | Infinity s \<Rightarrow> Inr (Infinity (s \<noteq> t))
           | Finite s m \<Rightarrow>
               (case to_double (m / d) of
                  Some r \<Rightarrow> Inr (Finite (s \<noteq> t) r)
                | None \<Rightarrow> Inr (Infinity (s \<noteq> t))))"
| "float_truediv NaN _ = Inr NaN"
| "float_truediv _ NaN = Inr NaN"
| "float_truediv (Infinity s) (Infinity t) = Inr NaN"
| "float_truediv (Finite s m) (Infinity t) = Inr (Finite (s \<noteq> t) 0)"

text \<open>The number an operand of \<open>/\<close> stands for: \<open>bool\<close> is a subclass of \<open>int\<close>.\<close>

fun as_int :: "pyval \<Rightarrow> int option" where
  "as_int (PBool b) = Some (if b then 1 else 0)"
| "as_int (PInt i) = Some i"
| "as_int _ = None"

definition py_truediv :: "pyval \<Rightarrow> pyval \<Rightarrow> exn + pyval" where
  "py_truediv x y =
     (case (as_int x, as_int y) of
        (Some a, Some b) \<Rightarrow> bind (int_truediv a b) (\<lambda>r. Inr (PFloat r))
      | (Some a, None) \<Rightarrow>
          (case y of
             PFloat g \<Rightarrow>
               bind (float_of_int a) (\<lambda>f. bind (float_truediv f g) (\<lambda>r. Inr (PFloat r)))
           | _ \<Rightarrow> Inl TypeError)
      | (None, Some b) \<Rightarrow>
          (case x of
             PFloat f \<Rightarrow>
               bind (float_of_int b) (\<lambda>g. bind (float_truediv f g) (\<lambda>r. Inr (PFloat r)))
           | _ \<Rightarrow> Inl TypeError)
      | (None, None) \<Rightarrow>
          (case (x, y) of
             (PFloat f, PFloat g) \<Rightarrow> bind (float_truediv f g) (\<lambda>r. Inr (PFloat r))
           | _ \<Rightarrow> Inl TypeError))"

text \<open>
  \<open>round(x, 1)\<close>. An \<open>int\<close> (or \<open>bool\<close>) comes back as the same \<open>int\<close>. A finite \<open>float\<close> is
  printed with one digit after the point, correctly rounded with ties to even, and the
  decimal is read back as a double; an infinity or a NaN comes back as it is. Other
  values have no \<open>__round__\<close>.
\<close>

fun float_round1 :: "pyfloat \<Rightarrow> exn + pyfloat" where
  "float_round1 (Finite s m) =
     (case to_double (of_int (round_half_even (10 * m)) / 10) of
        Some r \<Rightarrow> Inr (Finite s r)
      | None \<Rightarrow> Inl OverflowError)"
| "float_round1 x = Inr x"

fun py_round1 :: "pyval \<Rightarrow> exn + pyval" where
  "py_round1 (PBool b) = Inr (PInt (if b then 1 else 0))"
| "py_round1 (PInt i) = Inr (PInt i)"
| "py_round1 (PFloat x) = bind (float_round1 x) (\<lambda>r. Inr (PFloat r))"
| "py_round1 _ = Inl TypeError"

text \<open>The literal \<open>1609.34\<close>: the double nearest to it.\<close>

definition lit_1609_34 :: pyfloat where
  "lit_1609_34 = Finite False (7077952172180111 / 2 ^ 42)"

section \<open>Icon mapping\<close>

definition icon_map :: "(pystr \<times> pystr) list" where
  "icon_map =
    [(py ''01d'', py ''sun''), (py ''01n'', py ''moon''),
     (py ''02d'', py ''cloud-sun''), (py ''02n'', py ''cloud-moon''),
     (py ''03d'', py ''cloud''), (py ''03n'', py ''cloud''),
     (py ''04d'', py ''cloud''), (py ''04n'', py ''cloud''),
     (py ''09d'', py ''cloud-rain''), (py ''09n'', py ''cloud-rain''),
     (py ''10d'', py ''cloud-rain''), (py ''10n'', py ''cloud-rain''),
     (py ''11d'', py ''bolt''), (py ''11n'', py ''bolt''),
     (py ''13d'', py ''snowflake''), (py ''13n'', py ''snowflake''),
     (py ''50d'', py ''smog''), (py ''50n'', py ''smog'')]"

text \<open>
  \<open>icon_map.get(weather_code, 'sun')\<close>. The keys are strings, so another hashable
  argument finds nothing; a list or a dictionary cannot be hashed.
\<close>

fun get_weather_icon :: "pyval \<Rightarrow> exn + pyval" where
  "get_weather_icon (PStr weather_code) =
     Inr (PStr (case map_of icon_map weather_code of Some symbol \<Rightarrow> symbol | None \<Rightarrow> py ''sun''))"
| "get_weather_icon (PList xs) = Inl TypeError"
| "get_weather_icon (PDict d) = Inl TypeError"
| "get_weather_icon _ = Inr (PStr (py ''sun''))"

section \<open>Requests, outbound calls and responses\<close>

text \<open>
  The query string of the inbound request: \<open>request.args.get(k, d)\<close> is the first value
  given for \<open>k\<close>, or \<open>d\<close>; without \<open>d\<close> an absent parameter is \<open>None\<close>.
\<close>

type_synonym args = "(pystr \<times> pystr) list"

definition args_get :: "args \<Rightarrow> pystr \<Rightarrow> pystr \<Rightarrow> pystr" where
  "args_get a k d = (case map_of a k of Some v \<Rightarrow> v | None \<Rightarrow> d)"

text \<open>One outbound \<open>requests.get(url, params=params)\<close>.\<close>

record call =
  call_url :: pystr
  call_params :: "(pystr \<times> pyval) list"

text \<open>
  What the provider's answer offers to the handler: the status line, the URL that was
  fetched, and the outcome of \<open>response.json()\<close>.
\<close>

record http_response =
  status_code :: int
  reason :: pystr
  url :: pystr
  json :: "exn + pyval"

text \<open>
  The network: each outbound call either raises (no connection, time-out, ...) or yields a
  response. The handlers below return the list of calls they made beside their response.
\<close>

type_synonym network = "call \<Rightarrow> exn + http_response"

text \<open>\<open>str(n)\<close> for an \<open>int\<close>.\<close>

fun str_nat :: "nat \<Rightarrow> pystr" where
  "str_nat n = (if n < 10 then [48 + n] else str_nat (n div 10) @ [48 + n mod 10])"

definition str_int :: "int \<Rightarrow> pystr" where
  "str_int i = (if i < 0 then 45 # str_nat (nat (- i)) else str_nat (nat i))"

text \<open>
  \<open>Response.raise_for_status\<close> of the \<open>requests\<close> library: an \<open>HTTPError\<close> for a status from
  400 to 599, nothing otherwise.
\<close>

definition raise_for_status :: "http_response \<Rightarrow> exn + unit" where
  "raise_for_status r =
     (if 400 \<le> status_code r \<and> status_code r < 500 then
        Inl (RequestException
          (str_int (status_code r) @ py '' Client Error: '' @ reason r @ py '' for url: '' @ url r))
      else if 500 \<le> status_code r \<and> status_code r < 600 then
        Inl (RequestException
          (str_int (status_code r) @ py '' Server Error: '' @ reason r @ py '' for url: '' @ url r))
      else Inr ())"

text \<open>
  The body handed to \<open>jsonify\<close>: a value, or \<open>{'error': prefix + str(e)}\<close> for a caught
  exception \<open>e\<close>, written \<open>ErrorJson prefix e\<close>.
\<close>

datatype body = Json pyval | ErrorJson pystr exn

record response =
  status :: int
  body :: body

text \<open>The three steps every handler takes to obtain the provider's data.\<close>

definition fetch :: "network \<Rightarrow> call \<Rightarrow> exn + pyval" where
  "fetch net c =
     bind (net c) (\<lambda>response.
     bind (raise_for_status response) (\<lambda>_.
     json response))"

section \<open>Current weather\<close>

text \<open>
  The unit labels are the string literals as they stand in the source file: the code
  points U+00AC and U+221E, followed by \<open>C\<close> or \<open>F\<close>.
\<close>

definition unit_label_metric :: pystr where
  "unit_label_metric = [172, 8734, 67]"

definition unit_label_other :: pystr where
  "unit_label_other = [172, 8734, 70]"

text \<open>
  The dictionary display of the handler is evaluated from top to bottom, one nested
  dictionary after the other; the first subscript that fails raises.
\<close>

definition location_part :: "pyval \<Rightarrow> exn + pyval" where
  "location_part data =
     bind (subscripts data [Key (py ''name'')]) (\<lambda>city.
     bind (subscripts data [Key (py ''sys''), Key (py ''country'')]) (\<lambda>country.
     bind (subscripts data [Key (py ''coord''), Key (py ''lat'')]) (\<lambda>lat.
     bind (subscripts data [Key (py ''coord''), Key (py ''lon'')]) (\<lambda>lon.
     Inr (PDict
       [(py ''city'', city),
        (py ''country'', country),
        (py ''coordinates'', PDict [(py ''lat'', lat), (py ''lon'', lon)])])))))"

definition temperature_part :: "pystr \<Rightarrow> pyval \<Rightarrow> exn + pyval" where
  "temperature_part units data =
     bind (bind (subscripts data [Key (py ''main''), Key (py ''temp'')]) py_round1) (\<lambda>current.
     bind (bind (subscripts data [Key (py ''main''), Key (py ''feels_like'')]) py_round1)
       (\<lambda>feels_like.
     bind (bind (subscripts data [Key (py ''main''), Key (py ''temp_min'')]) py_round1) (\<lambda>tmin.
     bind (bind (subscripts data [Key (py ''main''), Key (py ''temp_max'')]) py_round1) (\<lambda>tmax.
     Inr (PDict
       [(py ''current'', current),
        (py ''feels_like'', feels_like),
        (py ''min'', tmin),
        (py ''max'', tmax),
        (py ''unit'',
           PStr (if units = py ''metric'' then unit_label_metric else unit_label_other))])))))"

definition weather_part :: "(pystr \<Rightarrow> pystr) \<Rightarrow> pyval \<Rightarrow> exn + pyval" where
  "weather_part ucd data =
     bind (subscripts data [Key (py ''weather''), Index 0, Key (py ''main'')]) (\<lambda>main.
     bind (bind (subscripts data [Key (py ''weather''), Index 0, Key (py ''description'')])
             (py_capitalize ucd)) (\<lambda>description.
     bind (subscripts data [Key (py ''weather''), Index 0, Key (py ''icon'')]) (\<lambda>icon.
     bind (bind (subscripts data [Key (py ''weather''), Index 0, Key (py ''icon'')])
             get_weather_icon) (\<lambda>icon_class.
     Inr (PDict
       [(py ''main'', main),
        (py ''description'', description),
        (py ''icon'', icon),
        (py ''icon_class'', icon_class)])))))"

definition visibility_of :: "pystr \<Rightarrow> pyval \<Rightarrow> exn + pyval" where
  "visibility_of units data =
     (if units = py ''metric''
      then bind (bind (py_get data (py ''visibility'') (PInt 10000))
                   (\<lambda>v. py_truediv v (PInt 1000))) py_round1
      else bind (bind (py_get data (py ''visibility'') (PInt 10000))
                   (\<lambda>v. py_truediv v (PFloat lit_1609_34))) py_round1)"

definition details_part :: "pystr \<Rightarrow> pyval \<Rightarrow> exn + pyval" where
  "details_part units data =
     bind (subscripts data [Key (py ''main''), Key (py ''humidity'')]) (\<lambda>humidity.
     bind (subscripts data [Key (py ''main''), Key (py ''pressure'')]) (\<lambda>pressure.
     bind (bind (subscripts data [Key (py ''wind''), Key (py ''speed'')]) py_round1)
       (\<lambda>wind_speed.
     bind (bind (subscripts data [Key (py ''wind'')]) (\<lambda>w. py_get w (py ''deg'') (PInt 0)))
       (\<lambda>wind_deg.
     bind (subscripts data [Key (py ''clouds''), Key (py ''all'')]) (\<lambda>cloudiness.
     bind (visibility_of units data) (\<lambda>visibility.
     Inr (PDict
       [(py ''humidity'', humidity),
        (py ''pressure'', pressure),
        (py ''wind_speed'', wind_speed),
        (py ''wind_deg'', wind_deg),
        (py ''cloudiness'', cloudiness),
        (py ''visibility'', visibility)])))))))"

definition system_part :: "pyval \<Rightarrow> exn + pyval" where
  "system_part data =
     bind (subscripts data [Key (py ''sys''), Key (py ''sunrise'')]) (\<lambda>sunrise.
     bind (subscripts data [Key (py ''sys''), Key (py ''sunset'')]) (\<lambda>sunset.
     bind (subscripts data [Key (py ''timezone'')]) (\<lambda>timezone.
     Inr (PDict
       [(py ''sunrise'', sunrise),
        (py ''sunset'', sunset),
        (py ''timezone'', timezone)]))))"

definition weather_data :: "(pystr \<Rightarrow> pystr) \<Rightarrow> pystr \<Rightarrow> pyval \<Rightarrow> exn + pyval" where
  "weather_data ucd units data =
     bind (location_part data) (\<lambda>location.
     bind (temperature_part units data) (\<lambda>temperature.
     bind (weather_part ucd data) (\<lambda>weather.
     bind (details_part units data) (\<lambda>details.
     bind (system_part data) (\<lambda>system.
     Inr (PDict
       [(py ''location'', location),
        (py ''temperature'', temperature),
        (py ''weather'', weather),
        (py ''details'', details),
        (py ''system'', system)]))))))"

text \<open>\<open>units\<close> goes to the provider unless it is \<open>standard\<close>.\<close>

definition units_param :: "pystr \<Rightarrow> (pystr \<times> pyval) list" where
  "units_param units = (if units \<noteq> py ''standard'' then [(py ''units'', PStr units)] else [])"

fun current_except :: "exn \<Rightarrow> response" where
  "current_except (RequestException m) =
     \<lparr>status = 500, body = ErrorJson (py ''Weather API request failed: '') (RequestException m)\<rparr>"
| "current_except (KeyError k) =
     \<lparr>status = 500,
      body = ErrorJson (py ''Invalid response format from weather API: '') (KeyError k)\<rparr>"
| "current_except e = \<lparr>status = 500, body = ErrorJson (py ''Unexpected error: '') e\<rparr>"

definition get_current_weather ::
  "(pystr \<Rightarrow> pystr) \<Rightarrow> pystr \<Rightarrow> network \<Rightarrow> args \<Rightarrow> call list \<times> response" where
  "get_current_weather ucd api_key net a =
     (let city = args_get a (py ''city'') (py ''London'');
          country = args_get a (py ''country'') (py ''UK'');
          units = args_get a (py ''units'') (py ''metric'');
          c = \<lparr>call_url = py ''http://api.openweathermap.org/data/2.5/weather'',
               call_params =
                 [(py ''q'', PStr (city @ py '','' @ country)), (py ''appid'', PStr api_key)]
                 @ units_param units\<rparr>
      in ([c],
          case bind (fetch net c) (weather_data ucd units) of
            Inr wd \<Rightarrow> \<lparr>status = 200, body = Json wd\<rparr>
          | Inl e \<Rightarrow> current_except e))"

section \<open>Forecast\<close>

definition forecast_entry :: "(pystr \<Rightarrow> pystr) \<Rightarrow> pyval \<Rightarrow> exn + pyval" where
  "forecast_entry ucd item =
     bind (subscripts item [Key (py ''dt_txt'')]) (\<lambda>datetime.
     bind (bind (subscripts item [Key (py ''main''), Key (py ''temp'')]) py_round1)
       (\<lambda>temperature.
     bind (bind (subscripts item [Key (py ''main''), Key (py ''feels_like'')]) py_round1)
       (\<lambda>feels_like.
     bind (subscripts item [Key (py ''weather''), Index 0, Key (py ''main'')]) (\<lambda>main.
     bind (bind (subscripts item [Key (py ''weather''), Index 0, Key (py ''description'')])
             (py_capitalize ucd)) (\<lambda>description.
     bind (subscripts item [Key (py ''weather''), Index 0, Key (py ''icon'')]) (\<lambda>icon.
     bind (bind (subscripts item [Key (py ''weather''), Index 0, Key (py ''icon'')])
             get_weather_icon) (\<lambda>icon_class.
     bind (subscripts item [Key (py ''main''), Key (py ''humidity'')]) (\<lambda>humidity.
     bind (bind (subscripts item [Key (py ''wind''), Key (py ''speed'')]) py_round1)
       (\<lambda>wind_speed.
     Inr (PDict
       [(py ''datetime'', datetime),
        (py ''temperature'', temperature),
        (py ''feels_like'', feels_like),
        (py ''weather'', PDict
          [(py ''main'', main),
           (py ''description'', description),
           (py ''icon'', icon),
           (py ''icon_class'', icon_class)]),
        (py ''details'', PDict
          [(py ''humidity'', humidity),
           (py ''wind_speed'', wind_speed)])]))))))))))"

text \<open>The \<open>for\<close> loop: \<open>forecast\<close> grows by one entry per item, in order.\<close>

fun forecast_loop :: "(pystr \<Rightarrow> pystr) \<Rightarrow> pyval list \<Rightarrow> pyval list \<Rightarrow> exn + pyval list" where
  "forecast_loop ucd forecast [] = Inr forecast"
| "forecast_loop ucd forecast (item # items) =
     bind (forecast_entry ucd item) (\<lambda>entry. forecast_loop ucd (forecast @ [entry]) items)"

definition forecast_data :: "(pystr \<Rightarrow> pystr) \<Rightarrow> pystr \<Rightarrow> pyval \<Rightarrow> exn + pyval" where
  "forecast_data ucd units data =
     bind (bind (bind (subscripts data [Key (py ''list'')]) py_slice5) py_iter) (\<lambda>items.
     bind (forecast_loop ucd [] items) (\<lambda>forecast.
     bind (subscripts data [Key (py ''city''), Key (py ''name'')]) (\<lambda>city.
     bind (subscripts data [Key (py ''city''), Key (py ''country'')]) (\<lambda>country.
     Inr (PDict
       [(py ''location'', PDict [(py ''city'', city), (py ''country'', country)]),
        (py ''forecast'', PList forecast),
        (py ''units'', PStr units)])))))"

definition get_forecast ::
  "(pystr \<Rightarrow> pystr) \<Rightarrow> pystr \<Rightarrow> network \<Rightarrow> args \<Rightarrow> call list \<times> response" where
  "get_forecast ucd api_key net a =
     (let city = args_get a (py ''city'') (py ''London'');
          country = args_get a (py ''country'') (py ''UK'');
          units = args_get a (py ''units'') (py ''metric'');
          c = \<lparr>call_url = py ''http://api.openweathermap.org/data/2.5/forecast'',
               call_params =
                 [(py ''q'', PStr (city @ py '','' @ country)), (py ''appid'', PStr api_key),
                  (py ''cnt'', PInt 5)]
                 @ units_param units\<rparr>
      in ([c],
          case bind (fetch net c) (forecast_data ucd units) of
            Inr fd \<Rightarrow> \<lparr>status = 200, body = Json fd\<rparr>
          | Inl e \<Rightarrow> \<lparr>status = 500, body = ErrorJson [] e\<rparr>))"

section \<open>Location search and reverse geocoding\<close>

definition location_match :: "pyval \<Rightarrow> exn + pyval" where
  "location_match loc =
     bind (py_get loc (py ''name'') (PStr [])) (\<lambda>name.
     bind (py_get loc (py ''state'') (PStr [])) (\<lambda>state.
     bind (py_get loc (py ''country'') (PStr [])) (\<lambda>country.
     bind (py_get loc (py ''lat'') PNone) (\<lambda>lat.
     bind (py_get loc (py ''lon'') PNone) (\<lambda>lon.
     Inr (PDict
       [(py ''name'', name), (py ''state'', state), (py ''country'', country),
        (py ''lat'', lat), (py ''lon'', lon)]))))))"

fun locations_loop :: "pyval list \<Rightarrow> pyval list \<Rightarrow> exn + pyval list" where
  "locations_loop processed_locations [] = Inr processed_locations"
| "locations_loop processed_locations (loc # locs) =
     bind (location_match loc) (\<lambda>m. locations_loop (processed_locations @ [m]) locs)"

definition search_location :: "pystr \<Rightarrow> network \<Rightarrow> args \<Rightarrow> call list \<times> response" where
  "search_location api_key net a =
     (let query = args_get a (py ''q'') []
      in if query = [] \<or> length query < 2 then ([], \<lparr>status = 200, body = Json (PList [])\<rparr>)
         else
           let c = \<lparr>call_url = py ''http://api.openweathermap.org/geo/1.0/direct'',
                    call_params =
                      [(py ''q'', PStr query), (py ''limit'', PInt 5),
                       (py ''appid'', PStr api_key)]\<rparr>
           in ([c],
               case bind (bind (fetch net c) py_iter) (locations_loop []) of
                 Inr processed_locations \<Rightarrow>
                   \<lparr>status = 200, body = Json (PList processed_locations)\<rparr>
               | Inl e \<Rightarrow> \<lparr>status = 500, body = ErrorJson [] e\<rparr>))"

text \<open>
  \<open>request.args.get(k)\<close> is \<open>None\<close> or a string; \<open>not v\<close> holds for \<open>None\<close> and for the
  empty string.
\<close>

fun falsy :: "pystr option \<Rightarrow> bool" where
  "falsy None = True"
| "falsy (Some v) = (v = [])"

fun opt_val :: "pystr option \<Rightarrow> pyval" where
  "opt_val None = PNone"
| "opt_val (Some v) = PStr v"

definition reverse_geocode :: "pystr \<Rightarrow> network \<Rightarrow> args \<Rightarrow> call list \<times> response" where
  "reverse_geocode api_key net a =
     (let lat = map_of a (py ''lat'');
          lon = map_of a (py ''lon'')
      in if falsy lat \<or> falsy lon then
           ([], \<lparr>status = 400,
                 body = Json (PDict [(py ''error'',
                          PStr (py ''Latitude and longitude are required''))])\<rparr>)
         else
           let c = \<lparr>call_url = py ''http://api.openweathermap.org/geo/1.0/reverse'',
                    call_params =
                      [(py ''lat'', opt_val lat), (py ''lon'', opt_val lon),
                       (py ''limit'', PInt 1), (py ''appid'', PStr api_key)]\<rparr>
           in ([c],
               case bind (fetch net c) (\<lambda>locations.
                      if py_truthy locations
                      then bind (bind (py_getitem locations (Index 0)) location_match)
                             (\<lambda>m. Inr \<lparr>status = 200, body = Json m\<rparr>)
                      else Inr \<lparr>status = 404,
                                body = Json (PDict [(py ''error'',
                                  PStr (py ''No location found for these coordinates''))])\<rparr>) of
                 Inr r \<Rightarrow> r
               | Inl e \<Rightarrow> \<lparr>status = 500, body = ErrorJson [] e\<rparr>))"

section \<open>Reading a response\<close>

text \<open>A field of the JSON body of a response, by its path; an error body has no fields.\<close>

fun body_field :: "body \<Rightarrow> subscript list \<Rightarrow> exn + pyval" where
  "body_field (Json v) path = subscripts v path"
| "body_field (ErrorJson prefix e) path = Inl e"

definition response_field :: "response \<Rightarrow> subscript list \<Rightarrow> exn + pyval" where
  "response_field r path = body_field (body r) path"

section \<open>The wording of the specification\<close>

text \<open>
  The description as the amended specification words it, for ASCII strings: \<open>out\<close> is \<open>d\<close>
  with its first character in upper case and every other character in lower case.
\<close>

definition first_upper_rest_lower :: "pystr \<Rightarrow> pystr \<Rightarrow> bool" where
  "first_upper_rest_lower d out \<longleftrightarrow>
     length out = length d
     \<and> (\<forall>i<length d. out ! i = (if i = 0 then ascii_upper (d ! i) else ascii_lower (d ! i)))"

text \<open>
  Rounding to one decimal place, as the specification words it. \<open>tenths_nearest m k\<close>: the
  one-decimal number \<open>k / 10\<close> is as near to \<open>m\<close> as a one-decimal number can be.
  \<open>rounded_1dp v out\<close>: \<open>out\<close> is the number \<open>v\<close> rounded to one decimal place. An integer
  is its own rounding. A finite double with magnitude \<open>m\<close> is rounded to the double that
  stands for a nearest one-decimal number, with the same sign. An infinity or a NaN has
  no decimals and stays as it is.
\<close>

definition tenths_nearest :: "rat \<Rightarrow> int \<Rightarrow> bool" where
  "tenths_nearest m k \<longleftrightarrow> \<bar>of_int k / 10 - m\<bar> \<le> 1 / 20"

fun rounded_1dp :: "pyval \<Rightarrow> pyval \<Rightarrow> bool" where
  "rounded_1dp (PBool b) out = (out = PInt (if b then 1 else 0))"
| "rounded_1dp (PInt i) out = (out = PInt i)"
| "rounded_1dp (PFloat (Finite s m)) out =
     (\<exists>k\<in>{\<lfloor>10 * m\<rfloor>, \<lfloor>10 * m\<rfloor> + 1}. tenths_nearest m k
        \<and> (case to_double (of_int k / 10) of
             Some r \<Rightarrow> out = PFloat (Finite s r)
           | None \<Rightarrow> False))"
| "rounded_1dp (PFloat x) out = (out = PFloat x)"
| "rounded_1dp _ out = False"

text \<open>
  A field of the response is the rounding of a field of the provider's data: both are
  there, the handler's \<open>round(v, 1)\<close> gives the one from the other, and it is the rounding
  in the sense above.
\<close>

definition field_rounded :: "pyval \<Rightarrow> subscript list \<Rightarrow> pyval \<Rightarrow> subscript list \<Rightarrow> bool" where
  "field_rounded src pin dst pout =
     (case (subscripts src pin, subscripts dst pout) of
        (Inr v, Inr out) \<Rightarrow> py_round1 v = Inr out \<and> rounded_1dp v out
      | _ \<Rightarrow> False)"

section \<open>Sample provider answers\<close>

text \<open>
  A provider answer for London, used to run the handlers on concrete input. The numbers
  15.25 and 3.75 are doubles; the description is one the provider has sent for clear sky.
\<close>

definition sample_data :: pyval where
  "sample_data = PDict
     [(py ''coord'', PDict
        [(py ''lon'', PInt 0), (py ''lat'', PFloat (Finite False (103 / 2)))]),
      (py ''weather'', PList
        [PDict [(py ''id'', PInt 800), (py ''main'', PStr (py ''Clear'')),
                (py ''description'', PStr (py ''Sky is Clear'')),
                (py ''icon'', PStr (py ''01d''))]]),
      (py ''main'', PDict
        [(py ''temp'', PFloat (Finite False (61 / 4))),
         (py ''feels_like'', PInt 14),
         (py ''temp_min'', PInt 13),
         (py ''temp_max'', PInt 17),
         (py ''pressure'', PInt 1015),
         (py ''humidity'', PInt 80)]),
      (py ''visibility'', PInt 10000),
      (py ''wind'', PDict [(py ''speed'', PFloat (Finite False (15 / 4))), (py ''deg'', PInt 240)]),
      (py ''clouds'', PDict [(py ''all'', PInt 0)]),
      (py ''sys'', PDict
        [(py ''country'', PStr (py ''GB'')),
         (py ''sunrise'', PInt 1700000000),
         (py ''sunset'', PInt 1700030000)]),
      (py ''timezone'', PInt 0),
      (py ''name'', PStr (py ''London''))]"

text \<open>
  The sample answers are ASCII, so the handlers never consult the Unicode tables on them.
  The closed statements below pass this stand-in for the tables.
\<close>

definition sample_ucd :: "pystr \<Rightarrow> pystr" where
  "sample_ucd s = s"

text \<open>A network whose every answer has the given status and carries \<open>sample_data\<close>.\<close>

definition sample_net :: "int \<Rightarrow> pystr \<Rightarrow> network" where
  "sample_net code phrase c =
     Inr \<lparr>status_code = code, reason = phrase, url = call_url c, json = Inr sample_data\<rparr>"

text \<open>One entry of the provider's forecast list, and an answer with six of them.\<close>

definition sample_item :: "int \<Rightarrow> pyval" where
  "sample_item t = PDict
     [(py ''dt_txt'', PStr (py ''2024-01-01 00:00:00'')),
      (py ''main'', PDict
        [(py ''temp'', PInt t), (py ''feels_like'', PInt (t - 1)), (py ''humidity'', PInt 80)]),
      (py ''weather'', PList
        [PDict [(py ''main'', PStr (py ''Clear'')),
                (py ''description'', PStr (py ''Sky is Clear'')),
                (py ''icon'', PStr (py ''01n''))]]),
      (py ''wind'', PDict [(py ''speed'', PInt 4)])]"

definition sample_forecast :: pyval where
  "sample_forecast = PDict
     [(py ''list'', PList (map sample_item [1, 2, 3, 4, 5, 6])),
      (py ''city'', PDict [(py ''name'', PStr (py ''London'')), (py ''country'', PStr (py ''GB''))])]"

definition sample_forecast_net :: network where
  "sample_forecast_net c =
     Inr \<lparr>status_code = 200, reason = py ''OK'', url = call_url c, json = Inr sample_forecast\<rparr>"

text \<open>
  A geocoding network that knows one place: it answers the reverse lookup of
  \<open>lat=51.5\<close>, \<open>lon=-0.1\<close> made with the key \<open>key\<close>, and no other call.
\<close>

definition sample_geo_net :: network where
  "sample_geo_net c =
     (if call_params c =
           [(py ''lat'', PStr (py ''51.5'')), (py ''lon'', PStr (py ''-0.1'')),
            (py ''limit'', PInt 1), (py ''appid'', PStr (py ''key''))]
      then Inr \<lparr>status_code = 200, reason = py ''OK'', url = call_url c,
                json = Inr (PList [PDict [(py ''name'', PStr (py ''London'')),
                                          (py ''country'', PStr (py ''GB''))]])\<rparr>
      else Inl (RequestException (py ''no answer'')))"

section \<open>Basic facts\<close>

lemma py_eq_iff [simp]: "py a = py b \<longleftrightarrow> a = b"
proof -
  have "inj (of_char :: char \<Rightarrow> nat)"
    by (rule inj_onI) simp
  then show ?thesis
    unfolding py_def by (simp add: inj_map_eq_map)
qed

lemma py_Nil [simp]: "py [] = []" "py s = [] \<longleftrightarrow> s = []" "[] = py s \<longleftrightarrow> s = []"
  by (auto simp: py_def)

lemma length_py [simp]: "length (py s) = length s"
  by (simp add: py_def)


lemma bind_Inr_iff: "bind m f = Inr y \<longleftrightarrow> (\<exists>x. m = Inr x \<and> f x = Inr y)"
  by (cases m) (simp_all add: bind_def)

lemma bind_Inl [simp]: "bind (Inl e) f = Inl e"
  by (simp add: bind_def)

lemma bind_Inr [simp]: "bind (Inr x) f = f x"
  by (simp add: bind_def)

section \<open>Icon mapping: the table and the default\<close>

text \<open>
  C1. \<open>get_weather_icon\<close> returns a symbol for every string and never raises on one:
  each of the eighteen provider codes (01, 02, 03, 04, 09, 10, 11, 13, 50 with suffix d
  or n) gives the symbol of the table, and every other string gives \<open>sun\<close>.
\<close>

theorem get_weather_icon_table:
  "get_weather_icon (PStr (py ''01d'')) = Inr (PStr (py ''sun''))
   \<and> get_weather_icon (PStr (py ''01n'')) = Inr (PStr (py ''moon''))
   \<and> get_weather_icon (PStr (py ''02d'')) = Inr (PStr (py ''cloud-sun''))
   \<and> get_weather_icon (PStr (py ''02n'')) = Inr (PStr (py ''cloud-moon''))
   \<and> get_weather_icon (PStr (py ''03d'')) = Inr (PStr (py ''cloud''))
   \<and> get_weather_icon (PStr (py ''03n'')) = Inr (PStr (py ''cloud''))
   \<and> get_weather_icon (PStr (py ''04d'')) = Inr (PStr (py ''cloud''))
   \<and> get_weather_icon (PStr (py ''04n'')) = Inr (PStr (py ''cloud''))
   \<and> get_weather_icon (PStr (py ''09d'')) = Inr (PStr (py ''cloud-rain''))
   \<and> get_weather_icon (PStr (py ''09n'')) = Inr (PStr (py ''cloud-rain''))
   \<and> get_weather_icon (PStr (py ''10d'')) = Inr (PStr (py ''cloud-rain''))
   \<and> get_weather_icon (PStr (py ''10n'')) = Inr (PStr (py ''cloud-rain''))
   \<and> get_weather_icon (PStr (py ''11d'')) = Inr (PStr (py ''bolt''))
   \<and> get_weather_icon (PStr (py ''11n'')) = Inr (PStr (py ''bolt''))
   \<and> get_weather_icon (PStr (py ''13d'')) = Inr (PStr (py ''snowflake''))
   \<and> get_weather_icon (PStr (py ''13n'')) = Inr (PStr (py ''snowflake''))
   \<and> get_weather_icon (PStr (py ''50d'')) = Inr (PStr (py ''smog''))
   \<and> get_weather_icon (PStr (py ''50n'')) = Inr (PStr (py ''smog''))
   \<and> (code \<notin> {py ''01d'', py ''01n'', py ''02d'', py ''02n'', py ''03d'', py ''03n'',
                 py ''04d'', py ''04n'', py ''09d'', py ''09n'', py ''10d'', py ''10n'',
                 py ''11d'', py ''11n'', py ''13d'', py ''13n'', py ''50d'', py ''50n''}
        \<longrightarrow> get_weather_icon (PStr code) = Inr (PStr (py ''sun'')))
   \<and> (\<exists>symbol. get_weather_icon (PStr code) = Inr (PStr symbol))"
  by (simp add: icon_map_def)

theorem get_weather_icon_table_witness:
  "py ''99x'' \<notin> {py ''01d'', py ''01n'', py ''02d'', py ''02n'', py ''03d'', py ''03n'',
                 py ''04d'', py ''04n'', py ''09d'', py ''09n'', py ''10d'', py ''10n'',
                 py ''11d'', py ''11n'', py ''13d'', py ''13n'', py ''50d'', py ''50n''}
   \<and> get_weather_icon (PStr (py ''99x'')) = Inr (PStr (py ''sun''))"
  using get_weather_icon_table [of "py ''99x''"] by simp

section \<open>Local validation of the location handlers\<close>

text \<open>
  C6. When \<open>q\<close> is absent from the request, or shorter than two characters,
  \<open>search_location\<close> answers 200 with the empty list and makes no outbound call,
  whatever the network would have answered.
\<close>

theorem search_location_short_query:
  assumes "case map_of a (py ''q'') of None \<Rightarrow> True | Some q \<Rightarrow> length q < 2"
  shows "search_location api_key net a = ([], \<lparr>status = 200, body = Json (PList [])\<rparr>)"
  using assms by (auto simp: search_location_def args_get_def split: option.splits)

theorem search_location_short_query_witness:
  "(case map_of [(py ''q'', py ''L'')] (py ''q'') of None \<Rightarrow> True | Some q \<Rightarrow> length q < 2)
   \<and> search_location (py ''key'') (\<lambda>c. Inl (RequestException [])) [(py ''q'', py ''L'')]
       = ([], \<lparr>status = 200, body = Json (PList [])\<rparr>)
   \<and> (case map_of [] (py ''q'') of None \<Rightarrow> True | Some (q :: pystr) \<Rightarrow> length q < 2)
   \<and> search_location (py ''key'') (\<lambda>c. Inl (RequestException [])) []
       = ([], \<lparr>status = 200, body = Json (PList [])\<rparr>)"
  using search_location_short_query
          [of "[(py ''q'', py ''L'')]" "py ''key''" "\<lambda>c. Inl (RequestException [])"]
        search_location_short_query [of "[]" "py ''key''" "\<lambda>c. Inl (RequestException [])"]
  by simp

text \<open>
  C7. When \<open>lat\<close> or \<open>lon\<close> is absent from the request, \<open>reverse_geocode\<close> answers 400
  with the body \<open>{'error': 'Latitude and longitude are required'}\<close> and makes no outbound
  call.
\<close>

theorem reverse_geocode_missing_parameter:
  assumes "map_of a (py ''lat'') = None \<or> map_of a (py ''lon'') = None"
  shows "reverse_geocode api_key net a =
           ([], \<lparr>status = 400,
                 body = Json (PDict [(py ''error'',
                          PStr (py ''Latitude and longitude are required''))])\<rparr>)"
  using assms by (auto simp: reverse_geocode_def)

theorem reverse_geocode_missing_parameter_witness:
  "(map_of [(py ''lat'', py ''51.5'')] (py ''lat'') = None
      \<or> map_of [(py ''lat'', py ''51.5'')] (py ''lon'') = None)
   \<and> reverse_geocode (py ''key'') (\<lambda>c. Inl (RequestException [])) [(py ''lat'', py ''51.5'')] =
         ([], \<lparr>status = 400,
               body = Json (PDict [(py ''error'',
                        PStr (py ''Latitude and longitude are required''))])\<rparr>)"
  using reverse_geocode_missing_parameter
          [of "[(py ''lat'', py ''51.5'')]" "py ''key''" "\<lambda>c. Inl (RequestException [])"]
  by simp

lemma reverse_geocode_call:
  assumes "map_of a (py ''lat'') = Some lat" and "lat \<noteq> []"
    and "map_of a (py ''lon'') = Some lon" and "lon \<noteq> []"
  shows "reverse_geocode api_key net a =
    ([\<lparr>call_url = py ''http://api.openweathermap.org/geo/1.0/reverse'',
       call_params = [(py ''lat'', PStr lat), (py ''lon'', PStr lon),
                      (py ''limit'', PInt 1), (py ''appid'', PStr api_key)]\<rparr>],
     case bind (fetch net
            \<lparr>call_url = py ''http://api.openweathermap.org/geo/1.0/reverse'',
             call_params = [(py ''lat'', PStr lat), (py ''lon'', PStr lon),
                            (py ''limit'', PInt 1), (py ''appid'', PStr api_key)]\<rparr>)
            (\<lambda>locations.
                if py_truthy locations
                then bind (bind (py_getitem locations (Index 0)) location_match)
                       (\<lambda>m. Inr \<lparr>status = 200, body = Json m\<rparr>)
                else Inr \<lparr>status = 404,
                          body = Json (PDict [(py ''error'',
                            PStr (py ''No location found for these coordinates''))])\<rparr>) of
       Inr r \<Rightarrow> r
     | Inl e \<Rightarrow> \<lparr>status = 500, body = ErrorJson [] e\<rparr>)"
  using assms by (simp add: reverse_geocode_def Let_def)

text \<open>
  C10. \<open>reverse_geocode\<close> tests \<open>lat\<close> and \<open>lon\<close> for truth only. A parameter given with an
  empty value is refused like an absent one: 400, the same body, no outbound call. When
  both values are non-empty strings, whatever their text, exactly one outbound call is
  made, it carries the two strings as they were received, and the response is what the
  network answers to that very call: its exception or HTTP error as a 500, an empty list
  as the 404, the first location of a list as the 200. It is never the 400 of the local
  check.
\<close>

theorem reverse_geocode_truthiness:
  "(map_of a (py ''lat'') = Some [] \<or> map_of a (py ''lon'') = Some []
      \<longrightarrow> reverse_geocode api_key net a =
            ([], \<lparr>status = 400,
                  body = Json (PDict [(py ''error'',
                           PStr (py ''Latitude and longitude are required''))])\<rparr>))
   \<and> (map_of a (py ''lat'') = Some lat \<and> lat \<noteq> [] \<and> map_of a (py ''lon'') = Some lon \<and> lon \<noteq> []
      \<longrightarrow> (\<exists>c. c = \<lparr>call_url = py ''http://api.openweathermap.org/geo/1.0/reverse'',
                    call_params = [(py ''lat'', PStr lat), (py ''lon'', PStr lon),
                                   (py ''limit'', PInt 1), (py ''appid'', PStr api_key)]\<rparr>
            \<and> fst (reverse_geocode api_key net a) = [c]
            \<and> status (snd (reverse_geocode api_key net a)) \<in> {200, 404, 500}
            \<and> (\<forall>e. net c = Inl e \<longrightarrow>
                  snd (reverse_geocode api_key net a) = \<lparr>status = 500, body = ErrorJson [] e\<rparr>)
            \<and> (\<forall>resp. net c = Inr resp \<and> 400 \<le> status_code resp \<and> status_code resp < 600 \<longrightarrow>
                  status (snd (reverse_geocode api_key net a)) = 500)
            \<and> (\<forall>resp e. net c = Inr resp
                    \<and> \<not> (400 \<le> status_code resp \<and> status_code resp < 600)
                    \<and> json resp = Inl e \<longrightarrow>
                  snd (reverse_geocode api_key net a) = \<lparr>status = 500, body = ErrorJson [] e\<rparr>)
            \<and> (\<forall>resp. net c = Inr resp
                    \<and> \<not> (400 \<le> status_code resp \<and> status_code resp < 600)
                    \<and> json resp = Inr (PList []) \<longrightarrow>
                  snd (reverse_geocode api_key net a) =
                    \<lparr>status = 404,
                     body = Json (PDict [(py ''error'',
                              PStr (py ''No location found for these coordinates''))])\<rparr>)
            \<and> (\<forall>resp loc rest. net c = Inr resp
                    \<and> \<not> (400 \<le> status_code resp \<and> status_code resp < 600)
                    \<and> json resp = Inr (PList (PDict loc # rest)) \<longrightarrow>
                  snd (reverse_geocode api_key net a) =
                    \<lparr>status = 200,
                     body = Json (PDict
                       [(py ''name'', case map_of loc (py ''name'') of Some v \<Rightarrow> v | None \<Rightarrow> PStr []),
                        (py ''state'', case map_of loc (py ''state'') of Some v \<Rightarrow> v | None \<Rightarrow> PStr []),
                        (py ''country'',
                           case map_of loc (py ''country'') of Some v \<Rightarrow> v | None \<Rightarrow> PStr []),
                        (py ''lat'', case map_of loc (py ''lat'') of Some v \<Rightarrow> v | None \<Rightarrow> PNone),
                        (py ''lon'', case map_of loc (py ''lon'') of Some v \<Rightarrow> v | None \<Rightarrow> PNone)])\<rparr>)))"
proof (intro conjI impI)
  assume "map_of a (py ''lat'') = Some [] \<or> map_of a (py ''lon'') = Some []"
  then show "reverse_geocode api_key net a =
            ([], \<lparr>status = 400,
                  body = Json (PDict [(py ''error'',
                           PStr (py ''Latitude and longitude are required''))])\<rparr>)"
    by (auto simp: reverse_geocode_def)
next
  let ?c = "\<lparr>call_url = py ''http://api.openweathermap.org/geo/1.0/reverse'',
                    call_params = [(py ''lat'', PStr lat), (py ''lon'', PStr lon),
                                   (py ''limit'', PInt 1), (py ''appid'', PStr api_key)]\<rparr>"
  assume "map_of a (py ''lat'') = Some lat \<and> lat \<noteq> [] \<and> map_of a (py ''lon'') = Some lon \<and> lon \<noteq> []"
  then have r: "reverse_geocode api_key net a =
    ([?c],
     case bind (fetch net ?c)
            (\<lambda>locations.
                if py_truthy locations
                then bind (bind (py_getitem locations (Index 0)) location_match)
                       (\<lambda>m. Inr \<lparr>status = 200, body = Json m\<rparr>)
                else Inr \<lparr>status = 404,
                          body = Json (PDict [(py ''error'',
                            PStr (py ''No location found for these coordinates''))])\<rparr>) of
       Inr r \<Rightarrow> r
     | Inl e \<Rightarrow> \<lparr>status = 500, body = ErrorJson [] e\<rparr>)"
    using reverse_geocode_call [of a lat lon api_key net] by simp
  have st: "status (snd (reverse_geocode api_key net a)) \<in> {200, 404, 500}"
    unfolding r by (auto simp: bind_Inr_iff split: sum.splits if_splits)
  have e1: "snd (reverse_geocode api_key net a) = \<lparr>status = 500, body = ErrorJson [] e\<rparr>"
    if "net ?c = Inl e" for e
    unfolding r using that by (simp add: fetch_def)
  have e2: "status (snd (reverse_geocode api_key net a)) = 500"
    if "net ?c = Inr resp \<and> 400 \<le> status_code resp \<and> status_code resp < 600" for resp
    unfolding r using that by (auto simp: fetch_def raise_for_status_def)
  have e3: "snd (reverse_geocode api_key net a) = \<lparr>status = 500, body = ErrorJson [] e\<rparr>"
    if "net ?c = Inr resp \<and> \<not> (400 \<le> status_code resp \<and> status_code resp < 600)
          \<and> json resp = Inl e" for resp e
    unfolding r using that by (auto simp: fetch_def raise_for_status_def)
  have e4: "snd (reverse_geocode api_key net a) =
                    \<lparr>status = 404,
                     body = Json (PDict [(py ''error'',
                              PStr (py ''No location found for these coordinates''))])\<rparr>"
    if "net ?c = Inr resp \<and> \<not> (400 \<le> status_code resp \<and> status_code resp < 600)
          \<and> json resp = Inr (PList [])" for resp
    unfolding r using that by (auto simp: fetch_def raise_for_status_def)
  have e5: "snd (reverse_geocode api_key net a) =
                    \<lparr>status = 200,
                     body = Json (PDict
                       [(py ''name'', case map_of loc (py ''name'') of Some v \<Rightarrow> v | None \<Rightarrow> PStr []),
                        (py ''state'', case map_of loc (py ''state'') of Some v \<Rightarrow> v | None \<Rightarrow> PStr []),
                        (py ''country'',
                           case map_of loc (py ''country'') of Some v \<Rightarrow> v | None \<Rightarrow> PStr []),
                        (py ''lat'', case map_of loc (py ''lat'') of Some v \<Rightarrow> v | None \<Rightarrow> PNone),
                        (py ''lon'', case map_of loc (py ''lon'') of Some v \<Rightarrow> v | None \<Rightarrow> PNone)])\<rparr>"
    if "net ?c = Inr resp \<and> \<not> (400 \<le> status_code resp \<and> status_code resp < 600)
          \<and> json resp = Inr (PList (PDict loc # rest))" for resp loc rest
    unfolding r using that
    by (auto simp: fetch_def raise_for_status_def seq_getitem_def location_match_def)
  have c: "fst (reverse_geocode api_key net a) = [?c]"
    unfolding r by simp
  show "\<exists>c. c = ?c
            \<and> fst (reverse_geocode api_key net a) = [c]
            \<and> status (snd (reverse_geocode api_key net a)) \<in> {200, 404, 500}
            \<and> (\<forall>e. net c = Inl e \<longrightarrow>
                  snd (reverse_geocode api_key net a) = \<lparr>status = 500, body = ErrorJson [] e\<rparr>)
            \<and> (\<forall>resp. net c = Inr resp \<and> 400 \<le> status_code resp \<and> status_code resp < 600 \<longrightarrow>
                  status (snd (reverse_geocode api_key net a)) = 500)
            \<and> (\<forall>resp e. net c = Inr resp
                    \<and> \<not> (400 \<le> status_code resp \<and> status_code resp < 600)
                    \<and> json resp = Inl e \<longrightarrow>
                  snd (reverse_geocode api_key net a) = \<lparr>status = 500, body = ErrorJson [] e\<rparr>)
            \<and> (\<forall>resp. net c = Inr resp
                    \<and> \<not> (400 \<le> status_code resp \<and> status_code resp < 600)
                    \<and> json resp = Inr (PList []) \<longrightarrow>
                  snd (reverse_geocode api_key net a) =
                    \<lparr>status = 404,
                     body = Json (PDict [(py ''error'',
                              PStr (py ''No location found for these coordinates''))])\<rparr>)
            \<and> (\<forall>resp loc rest. net c = Inr resp
                    \<and> \<not> (400 \<le> status_code resp \<and> status_code resp < 600)
                    \<and> json resp = Inr (PList (PDict loc # rest)) \<longrightarrow>
                  snd (reverse_geocode api_key net a) =
                    \<lparr>status = 200,
                     body = Json (PDict
                       [(py ''name'', case map_of loc (py ''name'') of Some v \<Rightarrow> v | None \<Rightarrow> PStr []),
                        (py ''state'', case map_of loc (py ''state'') of Some v \<Rightarrow> v | None \<Rightarrow> PStr []),
                        (py ''country'',
                           case map_of loc (py ''country'') of Some v \<Rightarrow> v | None \<Rightarrow> PStr []),
                        (py ''lat'', case map_of loc (py ''lat'') of Some v \<Rightarrow> v | None \<Rightarrow> PNone),
                        (py ''lon'', case map_of loc (py ''lon'') of Some v \<Rightarrow> v | None \<Rightarrow> PNone)])\<rparr>)"
    using c st e1 e2 e3 e4 e5 by (intro exI [of _ ?c] conjI allI impI) blast+
qed

theorem reverse_geocode_truthiness_witness:
  "(map_of [(py ''lat'', []), (py ''lon'', py ''5'')] (py ''lat'') = Some []
      \<or> map_of [(py ''lat'', []), (py ''lon'', py ''5'')] (py ''lon'') = Some [])
   \<and> reverse_geocode (py ''key'') sample_geo_net [(py ''lat'', []), (py ''lon'', py ''5'')] =
       ([], \<lparr>status = 400,
             body = Json (PDict [(py ''error'',
                      PStr (py ''Latitude and longitude are required''))])\<rparr>)
   \<and> (map_of [(py ''lat'', py ''51.5''), (py ''lon'', py ''-0.1'')] (py ''lat'') = Some (py ''51.5'')
        \<and> py ''51.5'' \<noteq> []
        \<and> map_of [(py ''lat'', py ''51.5''), (py ''lon'', py ''-0.1'')] (py ''lon'')
            = Some (py ''-0.1'')
        \<and> py ''-0.1'' \<noteq> [])
   \<and> reverse_geocode (py ''key'') sample_geo_net
         [(py ''lat'', py ''51.5''), (py ''lon'', py ''-0.1'')] =
       ([\<lparr>call_url = py ''http://api.openweathermap.org/geo/1.0/reverse'',
          call_params = [(py ''lat'', PStr (py ''51.5'')), (py ''lon'', PStr (py ''-0.1'')),
                         (py ''limit'', PInt 1), (py ''appid'', PStr (py ''key''))]\<rparr>],
        \<lparr>status = 200,
         body = Json (PDict
           [(py ''name'', PStr (py ''London'')),
            (py ''state'', PStr []),
            (py ''country'', PStr (py ''GB'')),
            (py ''lat'', PNone),
            (py ''lon'', PNone)])\<rparr>)
   \<and> (map_of [(py ''lat'', py ''abc''), (py ''lon'', py ''north'')] (py ''lat'') = Some (py ''abc'')
        \<and> py ''abc'' \<noteq> []
        \<and> map_of [(py ''lat'', py ''abc''), (py ''lon'', py ''north'')] (py ''lon'')
            = Some (py ''north'')
        \<and> py ''north'' \<noteq> [])
   \<and> reverse_geocode (py ''key'') sample_geo_net
         [(py ''lat'', py ''abc''), (py ''lon'', py ''north'')] =
       ([\<lparr>call_url = py ''http://api.openweathermap.org/geo/1.0/reverse'',
          call_params = [(py ''lat'', PStr (py ''abc'')), (py ''lon'', PStr (py ''north'')),
                         (py ''limit'', PInt 1), (py ''appid'', PStr (py ''key''))]\<rparr>],
        \<lparr>status = 500, body = ErrorJson [] (RequestException (py ''no answer''))\<rparr>)"
proof -
  let ?a1 = "[(py ''lat'', []), (py ''lon'', py ''5'')]"
  let ?a2 = "[(py ''lat'', py ''51.5''), (py ''lon'', py ''-0.1'')]"
  let ?a3 = "[(py ''lat'', py ''abc''), (py ''lon'', py ''north'')]"
  let ?c2 = "\<lparr>call_url = py ''http://api.openweathermap.org/geo/1.0/reverse'',
          call_params = [(py ''lat'', PStr (py ''51.5'')), (py ''lon'', PStr (py ''-0.1'')),
                         (py ''limit'', PInt 1), (py ''appid'', PStr (py ''key''))]\<rparr>"
  let ?c3 = "\<lparr>call_url = py ''http://api.openweathermap.org/geo/1.0/reverse'',
          call_params = [(py ''lat'', PStr (py ''abc'')), (py ''lon'', PStr (py ''north'')),
                         (py ''limit'', PInt 1), (py ''appid'', PStr (py ''key''))]\<rparr>"
  let ?resp = "\<lparr>status_code = 200, reason = py ''OK'',
                url = py ''http://api.openweathermap.org/geo/1.0/reverse'',
                json = Inr (PList [PDict [(py ''name'', PStr (py ''London'')),
                                          (py ''country'', PStr (py ''GB''))]])\<rparr>"
  have h1: "map_of ?a1 (py ''lat'') = Some [] \<or> map_of ?a1 (py ''lon'') = Some []"
    by simp
  have h2: "map_of ?a2 (py ''lat'') = Some (py ''51.5'') \<and> py ''51.5'' \<noteq> []
        \<and> map_of ?a2 (py ''lon'') = Some (py ''-0.1'') \<and> py ''-0.1'' \<noteq> []"
    by simp
  have h3: "map_of ?a3 (py ''lat'') = Some (py ''abc'') \<and> py ''abc'' \<noteq> []
        \<and> map_of ?a3 (py ''lon'') = Some (py ''north'') \<and> py ''north'' \<noteq> []"
    by simp
  have n2: "sample_geo_net ?c2 = Inr ?resp"
    by (simp add: sample_geo_net_def)
  have n3: "sample_geo_net ?c3 = Inl (RequestException (py ''no answer''))"
    by (simp add: sample_geo_net_def)
  note t1 = reverse_geocode_truthiness
              [where a = ?a1 and api_key = "py ''key''" and net = sample_geo_net,
               THEN conjunct1, rule_format, OF h1]
  note t2 = reverse_geocode_truthiness
              [where a = ?a2 and lat = "py ''51.5''" and lon = "py ''-0.1''"
                 and api_key = "py ''key''" and net = sample_geo_net,
               THEN conjunct2, rule_format, OF h2]
  note t3 = reverse_geocode_truthiness
              [where a = ?a3 and lat = "py ''abc''" and lon = "py ''north''"
                 and api_key = "py ''key''" and net = sample_geo_net,
               THEN conjunct2, rule_format, OF h3]
  from t2 n2 have r2: "reverse_geocode (py ''key'') sample_geo_net ?a2 =
       ([?c2],
        \<lparr>status = 200,
         body = Json (PDict
           [(py ''name'', PStr (py ''London'')),
            (py ''state'', PStr []),
            (py ''country'', PStr (py ''GB'')),
            (py ''lat'', PNone),
            (py ''lon'', PNone)])\<rparr>)"
    by (auto simp: prod_eq_iff)
  from t3 n3 have r3: "reverse_geocode (py ''key'') sample_geo_net ?a3 =
       ([?c3], \<lparr>status = 500, body = ErrorJson [] (RequestException (py ''no answer''))\<rparr>)"
    by (auto simp: prod_eq_iff)
  from t1 h1 h2 h3 r2 r3 show ?thesis
    by blast
qed

section \<open>Structure of the successful responses\<close>

lemma bindE:
  assumes "bind m f = Inr y"
  obtains x where "m = Inr x" and "f x = Inr y"
  using assms by (auto simp: bind_Inr_iff)

lemma status_current_except [simp]: "status (current_except e) = 500"
  by (cases e) simp_all

lemma get_current_weather_success:
  assumes "get_current_weather ucd api_key net a = (calls, r)" and "status r = 200"
  shows "\<exists>c data wd. calls = [c] \<and> fetch net c = Inr data
           \<and> weather_data ucd (args_get a (py ''units'') (py ''metric'')) data = Inr wd
           \<and> body r = Json wd"
proof -
  let ?units = "args_get a (py ''units'') (py ''metric'')"
  obtain c where r: "calls = [c]"
      "r = (case bind (fetch net c) (weather_data ucd ?units) of
              Inr wd \<Rightarrow> \<lparr>status = 200, body = Json wd\<rparr>
            | Inl e \<Rightarrow> current_except e)"
    using assms(1) by (auto simp: get_current_weather_def Let_def)
  show ?thesis
  proof (cases "bind (fetch net c) (weather_data ucd ?units)")
    case (Inl e)
    with r assms(2) show ?thesis by simp
  next
    case (Inr wd)
    then obtain data where "fetch net c = Inr data" "weather_data ucd ?units data = Inr wd"
      by (rule bindE)
    with r Inr show ?thesis by simp
  qed
qed

lemma get_forecast_success:
  assumes "get_forecast ucd api_key net a = (calls, r)" and "status r = 200"
  shows "\<exists>c data fd. calls = [c] \<and> fetch net c = Inr data
           \<and> forecast_data ucd (args_get a (py ''units'') (py ''metric'')) data = Inr fd
           \<and> body r = Json fd"
proof -
  let ?units = "args_get a (py ''units'') (py ''metric'')"
  obtain c where r: "calls = [c]"
      "r = (case bind (fetch net c) (forecast_data ucd ?units) of
              Inr fd \<Rightarrow> \<lparr>status = 200, body = Json fd\<rparr>
            | Inl e \<Rightarrow> \<lparr>status = 500, body = ErrorJson [] e\<rparr>)"
    using assms(1) by (auto simp: get_forecast_def Let_def)
  show ?thesis
  proof (cases "bind (fetch net c) (forecast_data ucd ?units)")
    case (Inl e)
    with r assms(2) show ?thesis by simp
  next
    case (Inr fd)
    then obtain data where "fetch net c = Inr data" "forecast_data ucd ?units data = Inr fd"
      by (rule bindE)
    with r Inr show ?thesis by simp
  qed
qed

lemma weather_data_parts:
  assumes "weather_data ucd units data = Inr wd"
  shows "\<exists>location temperature weather details system.
           location_part data = Inr location
         \<and> temperature_part units data = Inr temperature
         \<and> weather_part ucd data = Inr weather
         \<and> details_part units data = Inr details
         \<and> system_part data = Inr system
         \<and> wd = PDict
              [(py ''location'', location),
               (py ''temperature'', temperature),
               (py ''weather'', weather),
               (py ''details'', details),
               (py ''system'', system)]"
  using assms unfolding weather_data_def
  by (elim bindE) blast

lemma temperature_part_fields:
  assumes "temperature_part units data = Inr t"
  shows "\<exists>v1 v2 v3 v4 current feels_like tmin tmax.
           subscripts data [Key (py ''main''), Key (py ''temp'')] = Inr v1
         \<and> py_round1 v1 = Inr current
         \<and> subscripts data [Key (py ''main''), Key (py ''feels_like'')] = Inr v2
         \<and> py_round1 v2 = Inr feels_like
         \<and> subscripts data [Key (py ''main''), Key (py ''temp_min'')] = Inr v3
         \<and> py_round1 v3 = Inr tmin
         \<and> subscripts data [Key (py ''main''), Key (py ''temp_max'')] = Inr v4
         \<and> py_round1 v4 = Inr tmax
         \<and> t = PDict
              [(py ''current'', current),
               (py ''feels_like'', feels_like),
               (py ''min'', tmin),
               (py ''max'', tmax),
               (py ''unit'',
                  PStr (if units = py ''metric'' then unit_label_metric else unit_label_other))]"
  using assms unfolding temperature_part_def
  by (elim bindE) blast

lemma weather_part_fields:
  assumes "weather_part ucd data = Inr w"
  shows "\<exists>main v description icon icon_class.
           subscripts data [Key (py ''weather''), Index 0, Key (py ''description'')] = Inr v
         \<and> py_capitalize ucd v = Inr description
         \<and> subscripts data [Key (py ''weather''), Index 0, Key (py ''icon'')] = Inr icon
         \<and> get_weather_icon icon = Inr icon_class
         \<and> w = PDict
              [(py ''main'', main),
               (py ''description'', description),
               (py ''icon'', icon),
               (py ''icon_class'', icon_class)]"
  using assms unfolding weather_part_def
  by (elim bindE) auto

lemma details_part_fields:
  assumes "details_part units data = Inr d"
  shows "\<exists>humidity pressure v wind_speed wind_deg cloudiness visibility.
           subscripts data [Key (py ''wind''), Key (py ''speed'')] = Inr v
         \<and> py_round1 v = Inr wind_speed
         \<and> visibility_of units data = Inr visibility
         \<and> d = PDict
              [(py ''humidity'', humidity),
               (py ''pressure'', pressure),
               (py ''wind_speed'', wind_speed),
               (py ''wind_deg'', wind_deg),
               (py ''cloudiness'', cloudiness),
               (py ''visibility'', visibility)]"
  using assms unfolding details_part_def
  by (elim bindE) blast

lemma forecast_entry_fields:
  assumes "forecast_entry ucd item = Inr entry"
  shows "\<exists>datetime v1 temperature v2 feels_like main v3 description icon icon_class humidity
            v4 wind_speed.
           subscripts item [Key (py ''main''), Key (py ''temp'')] = Inr v1
         \<and> py_round1 v1 = Inr temperature
         \<and> subscripts item [Key (py ''main''), Key (py ''feels_like'')] = Inr v2
         \<and> py_round1 v2 = Inr feels_like
         \<and> subscripts item [Key (py ''weather''), Index 0, Key (py ''description'')] = Inr v3
         \<and> py_capitalize ucd v3 = Inr description
         \<and> subscripts item [Key (py ''wind''), Key (py ''speed'')] = Inr v4
         \<and> py_round1 v4 = Inr wind_speed
         \<and> entry = PDict
              [(py ''datetime'', datetime),
               (py ''temperature'', temperature),
               (py ''feels_like'', feels_like),
               (py ''weather'', PDict
                 [(py ''main'', main),
                  (py ''description'', description),
                  (py ''icon'', icon),
                  (py ''icon_class'', icon_class)]),
               (py ''details'', PDict
                 [(py ''humidity'', humidity),
                  (py ''wind_speed'', wind_speed)])]"
  using assms unfolding forecast_entry_def
  by (elim bindE) blast

lemma forecast_loop_entries:
  assumes "forecast_loop ucd forecast items = Inr out"
  shows "\<exists>entries. out = forecast @ entries
           \<and> list_all2 (\<lambda>item entry. forecast_entry ucd item = Inr entry) items entries"
  using assms
proof (induction items arbitrary: forecast)
  case Nil
  then show ?case by simp
next
  case (Cons item items)
  from Cons.prems obtain entry where e: "forecast_entry ucd item = Inr entry"
      and l: "forecast_loop ucd (forecast @ [entry]) items = Inr out"
    by (auto elim: bindE)
  from Cons.IH [OF l] obtain entries where "out = (forecast @ [entry]) @ entries"
      "list_all2 (\<lambda>item entry. forecast_entry ucd item = Inr entry) items entries"
    by blast
  with e show ?case
    by (intro exI [of _ "entry # entries"]) simp
qed

lemma forecast_entry_needs_dict:
  "forecast_entry ucd (PStr s) = Inl TypeError"
  by (simp add: forecast_entry_def)

lemma forecast_data_parts:
  assumes "forecast_data ucd units data = Inr fd"
  shows "\<exists>l sl items entries city country.
           subscripts data [Key (py ''list'')] = Inr l
         \<and> py_slice5 l = Inr sl
         \<and> py_iter sl = Inr items
         \<and> list_all2 (\<lambda>item entry. forecast_entry ucd item = Inr entry) items entries
         \<and> fd = PDict
              [(py ''location'', PDict [(py ''city'', city), (py ''country'', country)]),
               (py ''forecast'', PList entries),
               (py ''units'', PStr units)]"
proof -
  from assms obtain l sl items forecast city country where
    "subscripts data [Key (py ''list'')] = Inr l" "py_slice5 l = Inr sl"
    "py_iter sl = Inr items" "forecast_loop ucd [] items = Inr forecast"
    "fd = PDict
              [(py ''location'', PDict [(py ''city'', city), (py ''country'', country)]),
               (py ''forecast'', PList forecast),
               (py ''units'', PStr units)]"
    unfolding forecast_data_def by (elim bindE) blast
  moreover from forecast_loop_entries [OF this(4)]
  have "list_all2 (\<lambda>item entry. forecast_entry ucd item = Inr entry) items forecast"
    by simp
  ultimately show ?thesis by blast
qed

section \<open>The handlers on the sample answers\<close>

lemma to_double_10: "to_double 10 = Some 10"
  by code_simp

lemma float_round1_15_25:
  "float_round1 (Finite False (61 / 4)) = Inr (Finite False (4278419646001971 / 2 ^ 48))"
  by code_simp

lemma float_round1_3_75:
  "float_round1 (Finite False (15 / 4)) = Inr (Finite False (4278419646001971 / 2 ^ 50))"
  by code_simp

lemma float_round1_10: "float_round1 (Finite False 10) = Inr (Finite False 10)"
  using to_double_10 by (simp add: round_half_even_def)

declare float_round1.simps(1) [simp del]

lemma visibility_10000_metric:
  "bind (py_truediv (PInt 10000) (PInt 1000)) py_round1 = Inr (PFloat (Finite False 10))"
  using to_double_10 by (simp add: py_truediv_def int_truediv_def float_round1_10)

lemma sample_location: "\<exists>l. location_part sample_data = Inr l"
  by (simp add: location_part_def sample_data_def)

lemma sample_temperature: "\<exists>t. temperature_part units sample_data = Inr t"
  by (simp add: temperature_part_def sample_data_def float_round1_15_25)

lemma sample_weather:
  "weather_part ucd sample_data = Inr (PDict
     [(py ''main'', PStr (py ''Clear'')),
      (py ''description'', PStr (py ''Sky is clear'')),
      (py ''icon'', PStr (py ''01d'')),
      (py ''icon_class'', PStr (py ''sun''))])"
  by (simp add: weather_part_def sample_data_def seq_getitem_def icon_map_def)
     (simp add: capitalize_def py_def ascii_upper_def ascii_lower_def)

lemma sample_details_metric: "\<exists>d. details_part (py ''metric'') sample_data = Inr d"
  by (simp add: details_part_def visibility_of_def sample_data_def float_round1_3_75
        visibility_10000_metric)

lemma sample_system: "\<exists>s. system_part sample_data = Inr s"
  by (simp add: system_part_def sample_data_def)

lemma fetch_sample_net:
  "\<not> (400 \<le> code \<and> code < 600) \<Longrightarrow> fetch (sample_net code phrase) c = Inr sample_data"
  by (auto simp: fetch_def sample_net_def raise_for_status_def)

lemma sample_weather_data_metric:
  "\<exists>l t d s. weather_data ucd (py ''metric'') sample_data = Inr (PDict
     [(py ''location'', l),
      (py ''temperature'', t),
      (py ''weather'', PDict
        [(py ''main'', PStr (py ''Clear'')),
         (py ''description'', PStr (py ''Sky is clear'')),
         (py ''icon'', PStr (py ''01d'')),
         (py ''icon_class'', PStr (py ''sun''))]),
      (py ''details'', d),
      (py ''system'', s)])"
proof -
  obtain l t d s where "location_part sample_data = Inr l"
    "temperature_part (py ''metric'') sample_data = Inr t"
    "details_part (py ''metric'') sample_data = Inr d"
    "system_part sample_data = Inr s"
    using sample_location sample_temperature sample_details_metric sample_system by blast
  then show ?thesis
    by (simp add: weather_data_def sample_weather)
qed

lemma sample_current_weather:
  assumes "\<not> (400 \<le> code \<and> code < 600)"
  shows "\<exists>calls wd. get_current_weather sample_ucd (py ''key'') (sample_net code phrase) [] =
           (calls, \<lparr>status = 200, body = Json wd\<rparr>)
         \<and> subscripts wd [Key (py ''weather''), Key (py ''description'')] =
             Inr (PStr (py ''Sky is clear''))
         \<and> subscripts wd [Key (py ''temperature''), Key (py ''unit'')] =
             Inr (PStr unit_label_metric)"
proof -
  obtain wd where wd: "weather_data sample_ucd (py ''metric'') sample_data = Inr wd"
    "subscripts wd [Key (py ''weather''), Key (py ''description'')] =
       Inr (PStr (py ''Sky is clear''))"
    using sample_weather_data_metric [where ucd = sample_ucd] by auto
  obtain t where t: "temperature_part (py ''metric'') sample_data = Inr t"
    using sample_temperature by blast
  have "subscripts wd [Key (py ''temperature''), Key (py ''unit'')] =
          Inr (PStr unit_label_metric)"
    using weather_data_parts [OF wd(1)] temperature_part_fields [of "py ''metric''" sample_data]
    by auto
  with wd show ?thesis
    by (simp add: get_current_weather_def args_get_def fetch_sample_net [OF assms])
qed

lemma sample_item_entry:
  "forecast_entry ucd (sample_item t) = Inr (PDict
     [(py ''datetime'', PStr (py ''2024-01-01 00:00:00'')),
      (py ''temperature'', PInt t),
      (py ''feels_like'', PInt (t - 1)),
      (py ''weather'', PDict
        [(py ''main'', PStr (py ''Clear'')),
         (py ''description'', PStr (py ''Sky is clear'')),
         (py ''icon'', PStr (py ''01n'')),
         (py ''icon_class'', PStr (py ''moon''))]),
      (py ''details'', PDict
        [(py ''humidity'', PInt 80),
         (py ''wind_speed'', PInt 4)])])"
  by (simp add: forecast_entry_def sample_item_def seq_getitem_def icon_map_def)
     (simp add: capitalize_def py_def ascii_upper_def ascii_lower_def)

lemma sample_get_forecast:
  "status (snd (get_forecast sample_ucd (py ''key'') sample_forecast_net [])) = 200"
  by (simp add: get_forecast_def Let_def fetch_def sample_forecast_net_def raise_for_status_def
        forecast_data_def sample_forecast_def sample_item_entry)

lemma sample_current_status:
  "\<not> (400 \<le> code \<and> code < 600) \<Longrightarrow>
   status (snd (get_current_weather sample_ucd (py ''key'') (sample_net code phrase) [])) = 200"
  using sample_current_weather [where code = code and phrase = phrase] by auto

lemma sample_current_description:
  "response_field (snd (get_current_weather sample_ucd (py ''key'') (sample_net 200 (py ''OK'')) []))
     [Key (py ''weather''), Key (py ''description'')] = Inr (PStr (py ''Sky is clear''))"
  using sample_current_weather [where code = 200 and phrase = "py ''OK''"]
  by (auto simp: response_field_def)

lemma py_capitalize_Inr:
  "py_capitalize ucd v = Inr out \<Longrightarrow> \<exists>d. v = PStr d \<and> out = PStr (capitalize ucd d)"
  by (cases v) auto

lemma current_description:
  assumes "status (snd (get_current_weather ucd api_key net a)) = 200"
  shows "\<exists>c data wd d. fst (get_current_weather ucd api_key net a) = [c]
           \<and> fetch net c = Inr data
           \<and> subscripts data [Key (py ''weather''), Index 0, Key (py ''description'')]
               = Inr (PStr d)
           \<and> body (snd (get_current_weather ucd api_key net a)) = Json wd
           \<and> subscripts wd [Key (py ''weather''), Key (py ''description'')]
               = Inr (PStr (capitalize ucd d))"
proof -
  obtain calls r where cr: "get_current_weather ucd api_key net a = (calls, r)"
    by (cases "get_current_weather ucd api_key net a")
  with assms have "status r = 200" by simp
  from get_current_weather_success [OF cr this] obtain c data wd where
    c: "calls = [c]" "fetch net c = Inr data" "body r = Json wd"
    and wd: "weather_data ucd (args_get a (py ''units'') (py ''metric'')) data = Inr wd"
    by blast
  from weather_data_parts [OF wd] obtain location temperature weather details system where
    w: "weather_part ucd data = Inr weather"
    and wd_eq: "wd = PDict
              [(py ''location'', location),
               (py ''temperature'', temperature),
               (py ''weather'', weather),
               (py ''details'', details),
               (py ''system'', system)]"
    by blast
  from weather_part_fields [OF w] obtain main v description icon icon_class where
    v: "subscripts data [Key (py ''weather''), Index 0, Key (py ''description'')] = Inr v"
       "py_capitalize ucd v = Inr description"
    and w_eq: "weather = PDict
              [(py ''main'', main),
               (py ''description'', description),
               (py ''icon'', icon),
               (py ''icon_class'', icon_class)]"
    by blast
  from py_capitalize_Inr [OF v(2)] obtain d where d: "v = PStr d" "description = PStr (capitalize ucd d)"
    by blast
  have "subscripts wd [Key (py ''weather''), Key (py ''description'')] = Inr (PStr (capitalize ucd d))"
    by (simp add: wd_eq w_eq d)
  with c v d cr show ?thesis by auto
qed

lemma forecast_entries:
  assumes "status (snd (get_forecast ucd api_key net a)) = 200"
  shows "\<exists>c data items fd entries. fst (get_forecast ucd api_key net a) = [c]
           \<and> fetch net c = Inr data
           \<and> bind (bind (subscripts data [Key (py ''list'')]) py_slice5) py_iter = Inr items
           \<and> body (snd (get_forecast ucd api_key net a)) = Json fd
           \<and> subscripts fd [Key (py ''forecast'')] = Inr (PList entries)
           \<and> list_all2 (\<lambda>item entry. forecast_entry ucd item = Inr entry) items entries"
proof -
  obtain calls r where cr: "get_forecast ucd api_key net a = (calls, r)"
    by (cases "get_forecast ucd api_key net a")
  with assms have "status r = 200" by simp
  from get_forecast_success [OF cr this] obtain c data fd where
    c: "calls = [c]" "fetch net c = Inr data" "body r = Json fd"
    and fd: "forecast_data ucd (args_get a (py ''units'') (py ''metric'')) data = Inr fd"
    by blast
  from forecast_data_parts [OF fd] obtain l sl items entries city country where
    p: "subscripts data [Key (py ''list'')] = Inr l" "py_slice5 l = Inr sl"
       "py_iter sl = Inr items"
       "list_all2 (\<lambda>item entry. forecast_entry ucd item = Inr entry) items entries"
    and fd_eq: "fd = PDict
              [(py ''location'', PDict [(py ''city'', city), (py ''country'', country)]),
               (py ''forecast'', PList entries),
               (py ''units'', PStr (args_get a (py ''units'') (py ''metric'')))]"
    by blast
  have "bind (bind (subscripts data [Key (py ''list'')]) py_slice5) py_iter = Inr items"
    using p(1-3) by simp
  moreover have "subscripts fd [Key (py ''forecast'')] = Inr (PList entries)"
    by (simp add: fd_eq)
  ultimately show ?thesis using c p(4) cr by auto
qed

lemma forecast_entry_description:
  assumes "forecast_entry ucd item = Inr entry"
  shows "\<exists>d. subscripts item [Key (py ''weather''), Index 0, Key (py ''description'')]
               = Inr (PStr d)
           \<and> subscripts entry [Key (py ''weather''), Key (py ''description'')]
               = Inr (PStr (capitalize ucd d))"
proof -
  from forecast_entry_fields [OF assms] obtain v3 description where
    "subscripts item [Key (py ''weather''), Index 0, Key (py ''description'')] = Inr v3"
    "py_capitalize ucd v3 = Inr description"
    "subscripts entry [Key (py ''weather''), Key (py ''description'')] = Inr description"
    by auto
  with py_capitalize_Inr [OF this(2)] show ?thesis by auto
qed

section \<open>Weather description\<close>

text \<open>
  C2, as the specification states it, fails on the sample answer: the provider's
  description \<open>Sky is Clear\<close> comes back from the current-weather handler as
  \<open>Sky is clear\<close>, whose characters after the first are not those of the provider's
  string.
\<close>

theorem description_rest_unchanged_counterexample:
  "status (snd (get_current_weather sample_ucd (py ''key'') (sample_net 200 (py ''OK'')) []))
     = 200
   \<and> subscripts sample_data [Key (py ''weather''), Index 0, Key (py ''description'')]
       = Inr (PStr (py ''Sky is Clear''))
   \<and> response_field
         (snd (get_current_weather sample_ucd (py ''key'') (sample_net 200 (py ''OK'')) []))
         [Key (py ''weather''), Key (py ''description'')] = Inr (PStr (py ''Sky is clear''))
   \<and> tl (py ''Sky is clear'') \<noteq> tl (py ''Sky is Clear'')"
proof -
  have "subscripts sample_data [Key (py ''weather''), Index 0, Key (py ''description'')]
          = Inr (PStr (py ''Sky is Clear''))"
    by (simp add: sample_data_def seq_getitem_def)
  moreover have "tl (py ''Sky is clear'') \<noteq> tl (py ''Sky is Clear'')"
    by (simp add: py_def)
  ultimately show ?thesis
    using sample_current_status [where code = 200 and phrase = "py ''OK''"]
      sample_current_description
    by simp
qed

lemma capitalize_first_upper_rest_lower:
  assumes "list_all (\<lambda>x. x < 128) d"
  shows "first_upper_rest_lower d (capitalize ucd d)"
  using assms
  by (cases d) (auto simp: first_upper_rest_lower_def capitalize_def nth_Cons split: nat.splits)

text \<open>
  C2, amended. In every successful current-weather response, and in every entry of a
  successful forecast response, the description is \<open>str.capitalize\<close> of the provider's
  description, which must be a string. For a description of ASCII characters that is the
  string of the same length whose first character is in upper case and whose remaining
  characters are all in lower case.
\<close>

theorem description_capitalized:
  "(status (snd (get_current_weather ucd api_key net a)) = 200 \<longrightarrow>
      (\<exists>c data wd d out. fst (get_current_weather ucd api_key net a) = [c]
         \<and> fetch net c = Inr data
         \<and> subscripts data [Key (py ''weather''), Index 0, Key (py ''description'')]
             = Inr (PStr d)
         \<and> body (snd (get_current_weather ucd api_key net a)) = Json wd
         \<and> subscripts wd [Key (py ''weather''), Key (py ''description'')] = Inr (PStr out)
         \<and> out = capitalize ucd d
         \<and> (list_all (\<lambda>x. x < 128) d \<longrightarrow> first_upper_rest_lower d out)))
   \<and> (status (snd (get_forecast ucd api_key net a)) = 200 \<longrightarrow>
      (\<exists>c data items fd entries. fst (get_forecast ucd api_key net a) = [c]
         \<and> fetch net c = Inr data
         \<and> bind (bind (subscripts data [Key (py ''list'')]) py_slice5) py_iter = Inr items
         \<and> body (snd (get_forecast ucd api_key net a)) = Json fd
         \<and> subscripts fd [Key (py ''forecast'')] = Inr (PList entries)
         \<and> length entries = length items
         \<and> (\<forall>i<length items. \<exists>d out.
               subscripts (items ! i) [Key (py ''weather''), Index 0, Key (py ''description'')]
                 = Inr (PStr d)
               \<and> subscripts (entries ! i) [Key (py ''weather''), Key (py ''description'')]
                 = Inr (PStr out)
               \<and> out = capitalize ucd d
               \<and> (list_all (\<lambda>x. x < 128) d \<longrightarrow> first_upper_rest_lower d out))))"
proof (intro conjI impI)
  assume "status (snd (get_current_weather ucd api_key net a)) = 200"
  from current_description [OF this] obtain c data wd d where
    "fst (get_current_weather ucd api_key net a) = [c]" "fetch net c = Inr data"
    "subscripts data [Key (py ''weather''), Index 0, Key (py ''description'')] = Inr (PStr d)"
    "body (snd (get_current_weather ucd api_key net a)) = Json wd"
    "subscripts wd [Key (py ''weather''), Key (py ''description'')]
       = Inr (PStr (capitalize ucd d))"
    by blast
  then show "\<exists>c data wd d out. fst (get_current_weather ucd api_key net a) = [c]
         \<and> fetch net c = Inr data
         \<and> subscripts data [Key (py ''weather''), Index 0, Key (py ''description'')]
             = Inr (PStr d)
         \<and> body (snd (get_current_weather ucd api_key net a)) = Json wd
         \<and> subscripts wd [Key (py ''weather''), Key (py ''description'')] = Inr (PStr out)
         \<and> out = capitalize ucd d
         \<and> (list_all (\<lambda>x. x < 128) d \<longrightarrow> first_upper_rest_lower d out)"
    using capitalize_first_upper_rest_lower [of d ucd] by blast
next
  assume "status (snd (get_forecast ucd api_key net a)) = 200"
  from forecast_entries [OF this] obtain c data items fd entries where
    f: "fst (get_forecast ucd api_key net a) = [c]" "fetch net c = Inr data"
       "bind (bind (subscripts data [Key (py ''list'')]) py_slice5) py_iter = Inr items"
       "body (snd (get_forecast ucd api_key net a)) = Json fd"
       "subscripts fd [Key (py ''forecast'')] = Inr (PList entries)"
    and l: "list_all2 (\<lambda>item entry. forecast_entry ucd item = Inr entry) items entries"
    by blast
  from l have len: "length entries = length items"
    by (simp add: list_all2_lengthD)
  have "\<exists>d out.
          subscripts (items ! i) [Key (py ''weather''), Index 0, Key (py ''description'')]
            = Inr (PStr d)
          \<and> subscripts (entries ! i) [Key (py ''weather''), Key (py ''description'')]
            = Inr (PStr out)
          \<and> out = capitalize ucd d
          \<and> (list_all (\<lambda>x. x < 128) d \<longrightarrow> first_upper_rest_lower d out)"
    if "i < length items" for i
  proof -
    from forecast_entry_description [OF list_all2_nthD [OF l that]] obtain d where
      "subscripts (items ! i) [Key (py ''weather''), Index 0, Key (py ''description'')]
         = Inr (PStr d)"
      "subscripts (entries ! i) [Key (py ''weather''), Key (py ''description'')]
         = Inr (PStr (capitalize ucd d))"
      by blast
    then show ?thesis
      using capitalize_first_upper_rest_lower [of d ucd] by blast
  qed
  with f len show "\<exists>c data items fd entries. fst (get_forecast ucd api_key net a) = [c]
         \<and> fetch net c = Inr data
         \<and> bind (bind (subscripts data [Key (py ''list'')]) py_slice5) py_iter = Inr items
         \<and> body (snd (get_forecast ucd api_key net a)) = Json fd
         \<and> subscripts fd [Key (py ''forecast'')] = Inr (PList entries)
         \<and> length entries = length items
         \<and> (\<forall>i<length items. \<exists>d out.
               subscripts (items ! i) [Key (py ''weather''), Index 0, Key (py ''description'')]
                 = Inr (PStr d)
               \<and> subscripts (entries ! i) [Key (py ''weather''), Key (py ''description'')]
                 = Inr (PStr out)
               \<and> out = capitalize ucd d
               \<and> (list_all (\<lambda>x. x < 128) d \<longrightarrow> first_upper_rest_lower d out))"
    by blast
qed

theorem description_capitalized_witness:
  "status (snd (get_current_weather sample_ucd (py ''key'') (sample_net 200 (py ''OK'')) []))
     = 200
   \<and> list_all (\<lambda>x. x < 128) (py ''Sky is Clear'')
   \<and> response_field
         (snd (get_current_weather sample_ucd (py ''key'') (sample_net 200 (py ''OK'')) []))
         [Key (py ''weather''), Key (py ''description'')]
       = Inr (PStr (capitalize sample_ucd (py ''Sky is Clear'')))
   \<and> first_upper_rest_lower (py ''Sky is Clear'') (capitalize sample_ucd (py ''Sky is Clear''))
   \<and> status (snd (get_forecast sample_ucd (py ''key'') sample_forecast_net [])) = 200
   \<and> (\<exists>entries. response_field
          (snd (get_forecast sample_ucd (py ''key'') sample_forecast_net []))
          [Key (py ''forecast'')] = Inr (PList entries))"
proof -
  have ascii: "list_all (\<lambda>x. x < 128) (py ''Sky is Clear'')"
    by (simp add: py_def)
  have st: "status (snd (get_current_weather sample_ucd (py ''key'')
                (sample_net 200 (py ''OK'')) [])) = 200"
    using sample_current_status [where code = 200 and phrase = "py ''OK''"]
    by simp
  have f: "fetch (sample_net 200 (py ''OK'')) c = Inr sample_data" for c
    by (simp add: fetch_sample_net)
  have d: "subscripts sample_data [Key (py ''weather''), Index 0, Key (py ''description'')]
             = Inr (PStr (py ''Sky is Clear''))"
    by (simp add: sample_data_def seq_getitem_def)
  from description_capitalized
         [where ucd = sample_ucd and api_key = "py ''key''"
            and net = "sample_net 200 (py ''OK'')" and a = "[]",
          THEN conjunct1, rule_format, OF st]
  obtain c data wd d' out where
    w: "fetch (sample_net 200 (py ''OK'')) c = Inr data"
       "subscripts data [Key (py ''weather''), Index 0, Key (py ''description'')]
          = Inr (PStr d')"
       "body (snd (get_current_weather sample_ucd (py ''key'')
                (sample_net 200 (py ''OK'')) [])) = Json wd"
       "subscripts wd [Key (py ''weather''), Key (py ''description'')] = Inr (PStr out)"
       "out = capitalize sample_ucd d'"
       "list_all (\<lambda>x. x < 128) d' \<longrightarrow> first_upper_rest_lower d' out"
    by blast
  from w(1) f have "data = sample_data" by simp
  with w(2) d have d': "d' = py ''Sky is Clear''" by simp
  have fc: "status (snd (get_forecast sample_ucd (py ''key'') sample_forecast_net [])) = 200"
    by (rule sample_get_forecast)
  from description_capitalized
         [where ucd = sample_ucd and api_key = "py ''key''"
            and net = sample_forecast_net and a = "[]",
          THEN conjunct2, rule_format, OF fc]
  obtain fd entries where
    "body (snd (get_forecast sample_ucd (py ''key'') sample_forecast_net [])) = Json fd"
    "subscripts fd [Key (py ''forecast'')] = Inr (PList entries)"
    by blast
  with st ascii w d' fc show ?thesis
    by (auto simp: response_field_def)
qed

lemma visibility_10000_imperial:
  "bind (py_truediv (PInt 10000) (PFloat lit_1609_34)) py_round1
     = Inr (PFloat (Finite False (6980579422424269 / 2 ^ 50)))"
  by code_simp

lemma sample_details: "\<exists>d. details_part units sample_data = Inr d"
proof (cases "units = py ''metric''")
  case True
  then show ?thesis using sample_details_metric by simp
next
  case False
  then show ?thesis
    by (simp add: details_part_def visibility_of_def sample_data_def float_round1_3_75
          visibility_10000_imperial)
qed

lemma sample_weather_data: "\<exists>wd. weather_data ucd units sample_data = Inr wd"
proof -
  obtain l t d s where "location_part sample_data = Inr l"
    "temperature_part units sample_data = Inr t"
    "details_part units sample_data = Inr d"
    "system_part sample_data = Inr s"
    using sample_location sample_temperature sample_details sample_system by blast
  then show ?thesis
    by (simp add: weather_data_def sample_weather)
qed

lemma sample_status:
  assumes "\<not> (400 \<le> code \<and> code < 600)"
  shows "status (snd (get_current_weather sample_ucd api_key (sample_net code phrase) a)) = 200"
proof -
  obtain wd where
    "weather_data sample_ucd (args_get a (py ''units'') (py ''metric'')) sample_data = Inr wd"
    using sample_weather_data [where ucd = sample_ucd] by blast
  then show ?thesis
    by (simp add: get_current_weather_def Let_def fetch_sample_net [OF assms])
qed

section \<open>Temperature unit label\<close>

lemma current_unit_label:
  assumes "status (snd (get_current_weather ucd api_key net a)) = 200"
  shows "response_field (snd (get_current_weather ucd api_key net a))
           [Key (py ''temperature''), Key (py ''unit'')] =
         Inr (PStr (if args_get a (py ''units'') (py ''metric'') = py ''metric''
                    then unit_label_metric else unit_label_other))"
proof -
  obtain calls r where cr: "get_current_weather ucd api_key net a = (calls, r)"
    by (cases "get_current_weather ucd api_key net a")
  with assms have "status r = 200" by simp
  from get_current_weather_success [OF cr this] obtain wd data where
    b: "body r = Json wd"
    and wd: "weather_data ucd (args_get a (py ''units'') (py ''metric'')) data = Inr wd"
    by blast
  from weather_data_parts [OF wd] temperature_part_fields
  have "subscripts wd [Key (py ''temperature''), Key (py ''unit'')] =
          Inr (PStr (if args_get a (py ''units'') (py ''metric'') = py ''metric''
                     then unit_label_metric else unit_label_other))"
    by fastforce
  with b cr show ?thesis by (simp add: response_field_def)
qed

text \<open>
  C3. The handler chooses between its two unit labels by \<open>units == 'metric'\<close>, as the
  claim says, but the labels in the source file are not the degree signs of the claim: the
  string literals there are the three characters U+00AC, U+221E and \<open>C\<close> (or \<open>F\<close>), the
  two bytes of a UTF-8 degree sign read in another encoding. On the sample answer with
  \<open>units=metric\<close> the response is a success and its unit is that string, not U+00B0
  followed by \<open>C\<close>; with \<open>units=imperial\<close> it is the same with \<open>F\<close>.
\<close>

theorem unit_label_is_not_degree_sign:
  "status (snd (get_current_weather sample_ucd (py ''key'') (sample_net 200 (py ''OK''))
       [(py ''units'', py ''metric'')])) = 200
   \<and> response_field (snd (get_current_weather sample_ucd (py ''key'') (sample_net 200 (py ''OK''))
       [(py ''units'', py ''metric'')])) [Key (py ''temperature''), Key (py ''unit'')]
       = Inr (PStr [172, 8734, 67])
   \<and> PStr [172, 8734, 67] \<noteq> PStr [176, 67]
   \<and> response_field (snd (get_current_weather sample_ucd (py ''key'') (sample_net 200 (py ''OK''))
       [(py ''units'', py ''imperial'')])) [Key (py ''temperature''), Key (py ''unit'')]
       = Inr (PStr [172, 8734, 70])
   \<and> PStr [172, 8734, 70] \<noteq> PStr [176, 70]"
  using current_unit_label
          [of sample_ucd "py ''key''" "sample_net 200 (py ''OK'')"
              "[(py ''units'', py ''metric'')]"]
        current_unit_label
          [of sample_ucd "py ''key''" "sample_net 200 (py ''OK'')"
              "[(py ''units'', py ''imperial'')]"]
        sample_status [of 200 "py ''key''" "py ''OK''"]
  by (simp add: args_get_def unit_label_metric_def unit_label_other_def)

section \<open>Provider errors\<close>

text \<open>
  C9, as the specification states it, fails for a status that is neither 2xx nor an HTTP
  error: \<open>raise_for_status\<close> raises from 400 to 599 only. When the provider answers 300
  with a well-formed body, the handler answers 200.
\<close>

theorem non_2xx_status_counterexample:
  "fst (get_current_weather sample_ucd (py ''key'') (sample_net 300 (py ''Multiple Choices'')) []) =
     [\<lparr>call_url = py ''http://api.openweathermap.org/data/2.5/weather'',
       call_params = [(py ''q'', PStr (py ''London,UK'')), (py ''appid'', PStr (py ''key'')),
                      (py ''units'', PStr (py ''metric''))]\<rparr>]
   \<and> sample_net 300 (py ''Multiple Choices'')
       \<lparr>call_url = py ''http://api.openweathermap.org/data/2.5/weather'',
        call_params = [(py ''q'', PStr (py ''London,UK'')), (py ''appid'', PStr (py ''key'')),
                       (py ''units'', PStr (py ''metric''))]\<rparr> =
       Inr \<lparr>status_code = 300, reason = py ''Multiple Choices'',
            url = py ''http://api.openweathermap.org/data/2.5/weather'',
            json = Inr sample_data\<rparr>
   \<and> \<not> (200 \<le> (300 :: int) \<and> (300 :: int) < 300)
   \<and> status (snd (get_current_weather sample_ucd (py ''key'') (sample_net 300 (py ''Multiple Choices'')) []))
       = 200"
  using sample_status [of 300 "py ''key''" "py ''Multiple Choices''" "[]"]
  by (simp add: get_current_weather_def Let_def args_get_def units_param_def sample_net_def
        py_def)

text \<open>
  C9, amended. When the provider answers the current-weather request with a status from
  400 to 599 (404 for an unknown city among them), the handler answers 500 with the body
  \<open>{'error': 'Weather API request failed: ' + str(e)}\<close>, where \<open>e\<close> is the \<open>HTTPError\<close>
  of \<open>raise_for_status\<close>, whose text names the provider's status, reason and URL. The
  provider's status is not the status of the response.
\<close>

theorem provider_http_error_gives_500:
  assumes "fst (get_current_weather ucd api_key net a) = [c]"
    and "net c = Inr resp"
    and "400 \<le> status_code resp" and "status_code resp < 600"
  shows "snd (get_current_weather ucd api_key net a) =
           \<lparr>status = 500,
            body = ErrorJson (py ''Weather API request failed: '')
                     (RequestException
                        (str_int (status_code resp)
                         @ (if status_code resp < 500 then py '' Client Error: ''
                            else py '' Server Error: '')
                         @ reason resp @ py '' for url: '' @ url resp))\<rparr>"
proof -
  have "fetch net c = Inl (RequestException
                        (str_int (status_code resp)
                         @ (if status_code resp < 500 then py '' Client Error: ''
                            else py '' Server Error: '')
                         @ reason resp @ py '' for url: '' @ url resp))"
    using assms(2-4) by (simp add: fetch_def raise_for_status_def)
  then show ?thesis
    using assms(1) by (simp add: get_current_weather_def Let_def)
qed

theorem provider_http_error_gives_500_witness:
  "fst (get_current_weather sample_ucd (py ''key'') (sample_net 404 (py ''Not Found'')) []) =
     [\<lparr>call_url = py ''http://api.openweathermap.org/data/2.5/weather'',
       call_params = [(py ''q'', PStr (py ''London,UK'')), (py ''appid'', PStr (py ''key'')),
                      (py ''units'', PStr (py ''metric''))]\<rparr>]
   \<and> sample_net 404 (py ''Not Found'')
       \<lparr>call_url = py ''http://api.openweathermap.org/data/2.5/weather'',
        call_params = [(py ''q'', PStr (py ''London,UK'')), (py ''appid'', PStr (py ''key'')),
                       (py ''units'', PStr (py ''metric''))]\<rparr> =
       Inr \<lparr>status_code = 404, reason = py ''Not Found'',
            url = py ''http://api.openweathermap.org/data/2.5/weather'',
            json = Inr sample_data\<rparr>
   \<and> (400 :: int) \<le> 404 \<and> (404 :: int) < 600
   \<and> snd (get_current_weather sample_ucd (py ''key'') (sample_net 404 (py ''Not Found'')) []) =
       \<lparr>status = 500,
        body = ErrorJson (py ''Weather API request failed: '')
                 (RequestException
                    (py ''404 Client Error: Not Found for url: http://api.openweathermap.org/data/2.5/weather''))\<rparr>"
proof -
  let ?c = "\<lparr>call_url = py ''http://api.openweathermap.org/data/2.5/weather'',
       call_params = [(py ''q'', PStr (py ''London,UK'')), (py ''appid'', PStr (py ''key'')),
                      (py ''units'', PStr (py ''metric''))]\<rparr>"
  let ?resp = "\<lparr>status_code = 404, reason = py ''Not Found'',
            url = py ''http://api.openweathermap.org/data/2.5/weather'',
            json = Inr sample_data\<rparr>"
  have c: "fst (get_current_weather sample_ucd (py ''key'') (sample_net 404 (py ''Not Found'')) []) = [?c]"
    by (simp add: get_current_weather_def Let_def args_get_def units_param_def py_def)
  have n: "sample_net 404 (py ''Not Found'') ?c = Inr ?resp"
    by (simp add: sample_net_def)
  have s: "str_int 404 = py ''404''"
    by (simp add: str_int_def py_def)
  show ?thesis
    using provider_http_error_gives_500 [OF c n] c n s
    by (simp add: py_def)
qed

section \<open>Forecast length and order\<close>

lemma forecast_items:
  assumes "bind (bind (subscripts data [Key (py ''list'')]) py_slice5) py_iter = Inr items"
  shows "(\<forall>xs. subscripts data [Key (py ''list'')] = Inr (PList xs) \<longrightarrow> items = take 5 xs)
         \<and> length items \<le> 5"
proof -
  from assms obtain l sl where l: "subscripts data [Key (py ''list'')] = Inr l"
      "py_slice5 l = Inr sl" "py_iter sl = Inr items"
    by (elim bindE) blast
  then show ?thesis
    by (cases l) auto
qed

text \<open>
  C8. In a successful forecast response the \<open>forecast\<close> list has at most five entries.
  When the provider's \<open>list\<close> is a list of \<open>n\<close> entries, the response has \<open>min n 5\<close>
  entries, and its \<open>i\<close>-th entry is the normalized \<open>i\<close>-th provider entry.
\<close>

theorem forecast_first_five_in_order:
  assumes "status (snd (get_forecast ucd api_key net a)) = 200"
  shows "\<exists>c data fd entries. fst (get_forecast ucd api_key net a) = [c]
           \<and> fetch net c = Inr data
           \<and> body (snd (get_forecast ucd api_key net a)) = Json fd
           \<and> subscripts fd [Key (py ''forecast'')] = Inr (PList entries)
           \<and> length entries \<le> 5
           \<and> (\<forall>xs. subscripts data [Key (py ''list'')] = Inr (PList xs) \<longrightarrow>
                 length entries = min (length xs) 5
                 \<and> (\<forall>i<length entries. forecast_entry ucd (xs ! i) = Inr (entries ! i)))"
proof -
  from forecast_entries [OF assms] obtain c data items fd entries where
    f: "fst (get_forecast ucd api_key net a) = [c]" "fetch net c = Inr data"
       "body (snd (get_forecast ucd api_key net a)) = Json fd"
       "subscripts fd [Key (py ''forecast'')] = Inr (PList entries)"
    and i: "bind (bind (subscripts data [Key (py ''list'')]) py_slice5) py_iter = Inr items"
    and l: "list_all2 (\<lambda>item entry. forecast_entry ucd item = Inr entry) items entries"
    by blast
  from l have len: "length entries = length items"
    by (simp add: list_all2_lengthD)
  from forecast_items [OF i] have five: "length items \<le> 5"
    and tk: "\<And>xs. subscripts data [Key (py ''list'')] = Inr (PList xs) \<Longrightarrow> items = take 5 xs"
    by blast+
  have "length entries = min (length xs) 5
          \<and> (\<forall>i<length entries. forecast_entry ucd (xs ! i) = Inr (entries ! i))"
    if "subscripts data [Key (py ''list'')] = Inr (PList xs)" for xs
  proof -
    from tk [OF that] have items: "items = take 5 xs" .
    have "forecast_entry ucd (xs ! i) = Inr (entries ! i)" if "i < length entries" for i
    proof -
      from that len have "i < length items" by simp
      from list_all2_nthD [OF l this] have "forecast_entry ucd (items ! i) = Inr (entries ! i)" .
      moreover from \<open>i < length items\<close> items have "items ! i = xs ! i" by simp
      ultimately show ?thesis by simp
    qed
    with len items show ?thesis by (simp add: min.commute)
  qed
  with f len five show ?thesis by auto
qed

theorem forecast_first_five_in_order_witness:
  "status (snd (get_forecast sample_ucd (py ''key'') sample_forecast_net [])) = 200
   \<and> subscripts sample_forecast [Key (py ''list'')] = Inr (PList (map sample_item [1, 2, 3, 4, 5, 6]))
   \<and> (\<exists>entries. response_field (snd (get_forecast sample_ucd (py ''key'') sample_forecast_net []))
          [Key (py ''forecast'')] = Inr (PList entries)
        \<and> length entries = 5
        \<and> forecast_entry sample_ucd (sample_item 1) = Inr (entries ! 0)
        \<and> forecast_entry sample_ucd (sample_item 5) = Inr (entries ! 4))"
proof -
  have l: "subscripts sample_forecast [Key (py ''list'')]
             = Inr (PList (map sample_item [1, 2, 3, 4, 5, 6]))"
    by (simp add: sample_forecast_def)
  have f: "fetch sample_forecast_net c = Inr sample_forecast" for c
    by (simp add: fetch_def sample_forecast_net_def raise_for_status_def)
  from forecast_first_five_in_order [OF sample_get_forecast] f l
  obtain fd entries where
    e: "body (snd (get_forecast sample_ucd (py ''key'') sample_forecast_net [])) = Json fd"
       "subscripts fd [Key (py ''forecast'')] = Inr (PList entries)"
       "length entries = min (length (map sample_item [1, 2, 3, 4, 5, 6])) 5"
       "\<forall>i<length entries. forecast_entry sample_ucd (map sample_item [1, 2, 3, 4, 5, 6] ! i)
           = Inr (entries ! i)"
    by (metis sum.inject(2))
  from e(3) have five: "length entries = 5" by simp
  have nth: "forecast_entry sample_ucd (map sample_item [1, 2, 3, 4, 5, 6] ! i) = Inr (entries ! i)"
    if "i < 5" for i
    using e(4) five that by simp
  have "forecast_entry sample_ucd (sample_item 1) = Inr (entries ! 0)"
    using nth [of 0] by simp
  moreover have "forecast_entry sample_ucd (sample_item 5) = Inr (entries ! 4)"
    using nth [of 4] by simp
  ultimately have "forecast_entry sample_ucd (sample_item 1) = Inr (entries ! 0)"
    "forecast_entry sample_ucd (sample_item 5) = Inr (entries ! 4)"
    by simp_all
  with e(1,2) five sample_get_forecast l show ?thesis
    by (auto simp: response_field_def)
qed

section \<open>Rounding of temperatures and speeds\<close>

lemma round_half_even_cases:
  "round_half_even q = \<lfloor>q\<rfloor> \<or> round_half_even q = \<lfloor>q\<rfloor> + 1"
  by (simp add: round_half_even_def Let_def)

lemma round_half_even_error: "\<bar>of_int (round_half_even q) - q\<bar> \<le> 1 / 2"
proof -
  have "of_int \<lfloor>q\<rfloor> \<le> q" "q < of_int \<lfloor>q\<rfloor> + 1"
    by linarith+
  then show ?thesis
    by (auto simp: round_half_even_def Let_def abs_le_iff)
qed

lemma float_round1_rounded:
  assumes "float_round1 x = Inr r"
  shows "rounded_1dp (PFloat x) (PFloat r)"
proof (cases x)
  case (Finite s m)
  let ?k = "round_half_even (10 * m)"
  from assms Finite obtain d where d: "to_double (of_int ?k / 10) = Some d" "r = Finite s d"
    by (auto simp: float_round1.simps split: option.splits)
  have bound: "\<bar>of_int ?k - 10 * m\<bar> \<le> 1 / 2"
    by (rule round_half_even_error)
  have "of_int ?k / 10 - m = (of_int ?k - 10 * m) / 10"
    by (simp add: field_simps)
  then have "\<bar>of_int ?k / 10 - m\<bar> = \<bar>of_int ?k - 10 * m\<bar> / 10"
    by (simp only: abs_divide abs_numeral)
  with bound have "tenths_nearest m ?k"
    unfolding tenths_nearest_def by linarith
  moreover have "?k \<in> {\<lfloor>10 * m\<rfloor>, \<lfloor>10 * m\<rfloor> + 1}"
    using round_half_even_cases [of "10 * m"] by auto
  ultimately show ?thesis
    using d Finite by (auto intro!: bexI [of _ ?k])
next
  case (Infinity s)
  with assms show ?thesis by auto
next
  case NaN
  with assms show ?thesis by auto
qed

lemma py_round1_rounded:
  assumes "py_round1 v = Inr out"
  shows "rounded_1dp v out"
  using assms by (cases v) (auto elim!: bindE dest: float_round1_rounded)

lemma field_roundedI:
  assumes "subscripts src pin = Inr v" and "py_round1 v = Inr out"
    and "subscripts dst pout = Inr out"
  shows "field_rounded src pin dst pout"
  using assms py_round1_rounded [OF assms(2)] by (simp add: field_rounded_def)

lemma current_rounded:
  assumes "status (snd (get_current_weather ucd api_key net a)) = 200"
  shows "\<exists>c data wd. fst (get_current_weather ucd api_key net a) = [c]
           \<and> fetch net c = Inr data
           \<and> body (snd (get_current_weather ucd api_key net a)) = Json wd
           \<and> field_rounded data [Key (py ''main''), Key (py ''temp'')]
                 wd [Key (py ''temperature''), Key (py ''current'')]
           \<and> field_rounded data [Key (py ''main''), Key (py ''feels_like'')]
                 wd [Key (py ''temperature''), Key (py ''feels_like'')]
           \<and> field_rounded data [Key (py ''main''), Key (py ''temp_min'')]
                 wd [Key (py ''temperature''), Key (py ''min'')]
           \<and> field_rounded data [Key (py ''main''), Key (py ''temp_max'')]
                 wd [Key (py ''temperature''), Key (py ''max'')]
           \<and> field_rounded data [Key (py ''wind''), Key (py ''speed'')]
                 wd [Key (py ''details''), Key (py ''wind_speed'')]"
proof -
  obtain calls r where cr: "get_current_weather ucd api_key net a = (calls, r)"
    by (cases "get_current_weather ucd api_key net a")
  with assms have "status r = 200" by simp
  from get_current_weather_success [OF cr this] obtain c data wd where
    c: "calls = [c]" "fetch net c = Inr data" "body r = Json wd"
    and wd: "weather_data ucd (args_get a (py ''units'') (py ''metric'')) data = Inr wd"
    by blast
  from weather_data_parts [OF wd] obtain location temperature weather details system where
    t: "temperature_part (args_get a (py ''units'') (py ''metric'')) data = Inr temperature"
    and d: "details_part (args_get a (py ''units'') (py ''metric'')) data = Inr details"
    and wd_eq: "wd = PDict
              [(py ''location'', location),
               (py ''temperature'', temperature),
               (py ''weather'', weather),
               (py ''details'', details),
               (py ''system'', system)]"
    by blast
  from temperature_part_fields [OF t] obtain v1 v2 v3 v4 current feels_like tmin tmax where
    tf: "subscripts data [Key (py ''main''), Key (py ''temp'')] = Inr v1"
        "py_round1 v1 = Inr current"
        "subscripts data [Key (py ''main''), Key (py ''feels_like'')] = Inr v2"
        "py_round1 v2 = Inr feels_like"
        "subscripts data [Key (py ''main''), Key (py ''temp_min'')] = Inr v3"
        "py_round1 v3 = Inr tmin"
        "subscripts data [Key (py ''main''), Key (py ''temp_max'')] = Inr v4"
        "py_round1 v4 = Inr tmax"
    and t_eq: "temperature = PDict
              [(py ''current'', current),
               (py ''feels_like'', feels_like),
               (py ''min'', tmin),
               (py ''max'', tmax),
               (py ''unit'',
                  PStr (if args_get a (py ''units'') (py ''metric'') = py ''metric''
                        then unit_label_metric else unit_label_other))]"
    by blast
  from details_part_fields [OF d] obtain humidity pressure v wind_speed wind_deg cloudiness
      visibility where
    df: "subscripts data [Key (py ''wind''), Key (py ''speed'')] = Inr v"
        "py_round1 v = Inr wind_speed"
    and d_eq: "details = PDict
              [(py ''humidity'', humidity),
               (py ''pressure'', pressure),
               (py ''wind_speed'', wind_speed),
               (py ''wind_deg'', wind_deg),
               (py ''cloudiness'', cloudiness),
               (py ''visibility'', visibility)]"
    by blast
  have "field_rounded data [Key (py ''main''), Key (py ''temp'')]
          wd [Key (py ''temperature''), Key (py ''current'')]"
    by (rule field_roundedI [OF tf(1,2)]) (simp add: wd_eq t_eq)
  moreover have "field_rounded data [Key (py ''main''), Key (py ''feels_like'')]
          wd [Key (py ''temperature''), Key (py ''feels_like'')]"
    by (rule field_roundedI [OF tf(3,4)]) (simp add: wd_eq t_eq)
  moreover have "field_rounded data [Key (py ''main''), Key (py ''temp_min'')]
          wd [Key (py ''temperature''), Key (py ''min'')]"
    by (rule field_roundedI [OF tf(5,6)]) (simp add: wd_eq t_eq)
  moreover have "field_rounded data [Key (py ''main''), Key (py ''temp_max'')]
          wd [Key (py ''temperature''), Key (py ''max'')]"
    by (rule field_roundedI [OF tf(7,8)]) (simp add: wd_eq t_eq)
  moreover have "field_rounded data [Key (py ''wind''), Key (py ''speed'')]
          wd [Key (py ''details''), Key (py ''wind_speed'')]"
    by (rule field_roundedI [OF df(1,2)]) (simp add: wd_eq d_eq)
  ultimately show ?thesis
    using c cr by simp
qed

lemma forecast_entry_rounded:
  assumes "forecast_entry ucd item = Inr entry"
  shows "field_rounded item [Key (py ''main''), Key (py ''temp'')]
           entry [Key (py ''temperature'')]
         \<and> field_rounded item [Key (py ''main''), Key (py ''feels_like'')]
           entry [Key (py ''feels_like'')]
         \<and> field_rounded item [Key (py ''wind''), Key (py ''speed'')]
           entry [Key (py ''details''), Key (py ''wind_speed'')]"
proof -
  from forecast_entry_fields [OF assms] obtain datetime v1 temperature v2 feels_like main v3
      description icon icon_class humidity v4 wind_speed where
    f: "subscripts item [Key (py ''main''), Key (py ''temp'')] = Inr v1"
       "py_round1 v1 = Inr temperature"
       "subscripts item [Key (py ''main''), Key (py ''feels_like'')] = Inr v2"
       "py_round1 v2 = Inr feels_like"
       "subscripts item [Key (py ''wind''), Key (py ''speed'')] = Inr v4"
       "py_round1 v4 = Inr wind_speed"
    and e: "entry = PDict
              [(py ''datetime'', datetime),
               (py ''temperature'', temperature),
               (py ''feels_like'', feels_like),
               (py ''weather'', PDict
                 [(py ''main'', main),
                  (py ''description'', description),
                  (py ''icon'', icon),
                  (py ''icon_class'', icon_class)]),
               (py ''details'', PDict
                 [(py ''humidity'', humidity),
                  (py ''wind_speed'', wind_speed)])]"
    by blast
  have "field_rounded item [Key (py ''main''), Key (py ''temp'')] entry [Key (py ''temperature'')]"
    by (rule field_roundedI [OF f(1,2)]) (simp add: e)
  moreover have "field_rounded item [Key (py ''main''), Key (py ''feels_like'')]
           entry [Key (py ''feels_like'')]"
    by (rule field_roundedI [OF f(3,4)]) (simp add: e)
  moreover have "field_rounded item [Key (py ''wind''), Key (py ''speed'')]
           entry [Key (py ''details''), Key (py ''wind_speed'')]"
    by (rule field_roundedI [OF f(5,6)]) (simp add: e)
  ultimately show ?thesis by simp
qed

text \<open>
  C5. In a successful current-weather response the four temperatures and the wind speed,
  and in every entry of a successful forecast response the temperature, the felt
  temperature and the wind speed, are \<open>round(v, 1)\<close> of the provider's value \<open>v\<close>, and
  that is \<open>v\<close> rounded to one decimal place: an integer as it is, a double as the double
  of a nearest one-decimal number.
\<close>

theorem temperatures_and_speeds_rounded:
  "(status (snd (get_current_weather ucd api_key net a)) = 200 \<longrightarrow>
      (\<exists>c data wd. fst (get_current_weather ucd api_key net a) = [c]
         \<and> fetch net c = Inr data
         \<and> body (snd (get_current_weather ucd api_key net a)) = Json wd
         \<and> field_rounded data [Key (py ''main''), Key (py ''temp'')]
               wd [Key (py ''temperature''), Key (py ''current'')]
         \<and> field_rounded data [Key (py ''main''), Key (py ''feels_like'')]
               wd [Key (py ''temperature''), Key (py ''feels_like'')]
         \<and> field_rounded data [Key (py ''main''), Key (py ''temp_min'')]
               wd [Key (py ''temperature''), Key (py ''min'')]
         \<and> field_rounded data [Key (py ''main''), Key (py ''temp_max'')]
               wd [Key (py ''temperature''), Key (py ''max'')]
         \<and> field_rounded data [Key (py ''wind''), Key (py ''speed'')]
               wd [Key (py ''details''), Key (py ''wind_speed'')]))
   \<and> (status (snd (get_forecast ucd api_key net a)) = 200 \<longrightarrow>
      (\<exists>c data items fd entries. fst (get_forecast ucd api_key net a) = [c]
         \<and> fetch net c = Inr data
         \<and> bind (bind (subscripts data [Key (py ''list'')]) py_slice5) py_iter = Inr items
         \<and> body (snd (get_forecast ucd api_key net a)) = Json fd
         \<and> subscripts fd [Key (py ''forecast'')] = Inr (PList entries)
         \<and> length entries = length items
         \<and> (\<forall>i<length items.
               field_rounded (items ! i) [Key (py ''main''), Key (py ''temp'')]
                 (entries ! i) [Key (py ''temperature'')]
               \<and> field_rounded (items ! i) [Key (py ''main''), Key (py ''feels_like'')]
                 (entries ! i) [Key (py ''feels_like'')]
               \<and> field_rounded (items ! i) [Key (py ''wind''), Key (py ''speed'')]
                 (entries ! i) [Key (py ''details''), Key (py ''wind_speed'')])))"
proof (intro conjI impI)
  assume "status (snd (get_current_weather ucd api_key net a)) = 200"
  then show "\<exists>c data wd. fst (get_current_weather ucd api_key net a) = [c]
         \<and> fetch net c = Inr data
         \<and> body (snd (get_current_weather ucd api_key net a)) = Json wd
         \<and> field_rounded data [Key (py ''main''), Key (py ''temp'')]
               wd [Key (py ''temperature''), Key (py ''current'')]
         \<and> field_rounded data [Key (py ''main''), Key (py ''feels_like'')]
               wd [Key (py ''temperature''), Key (py ''feels_like'')]
         \<and> field_rounded data [Key (py ''main''), Key (py ''temp_min'')]
               wd [Key (py ''temperature''), Key (py ''min'')]
         \<and> field_rounded data [Key (py ''main''), Key (py ''temp_max'')]
               wd [Key (py ''temperature''), Key (py ''max'')]
         \<and> field_rounded data [Key (py ''wind''), Key (py ''speed'')]
               wd [Key (py ''details''), Key (py ''wind_speed'')]"
    by (rule current_rounded)
next
  assume "status (snd (get_forecast ucd api_key net a)) = 200"
  from forecast_entries [OF this] obtain c data items fd entries where
    f: "fst (get_forecast ucd api_key net a) = [c]" "fetch net c = Inr data"
       "bind (bind (subscripts data [Key (py ''list'')]) py_slice5) py_iter = Inr items"
       "body (snd (get_forecast ucd api_key net a)) = Json fd"
       "subscripts fd [Key (py ''forecast'')] = Inr (PList entries)"
    and l: "list_all2 (\<lambda>item entry. forecast_entry ucd item = Inr entry) items entries"
    by blast
  from l have len: "length entries = length items"
    by (simp add: list_all2_lengthD)
  have "field_rounded (items ! i) [Key (py ''main''), Key (py ''temp'')]
                 (entries ! i) [Key (py ''temperature'')]
               \<and> field_rounded (items ! i) [Key (py ''main''), Key (py ''feels_like'')]
                 (entries ! i) [Key (py ''feels_like'')]
               \<and> field_rounded (items ! i) [Key (py ''wind''), Key (py ''speed'')]
                 (entries ! i) [Key (py ''details''), Key (py ''wind_speed'')]"
    if "i < length items" for i
    using list_all2_nthD [OF l that] by (rule forecast_entry_rounded)
  with f len show "\<exists>c data items fd entries. fst (get_forecast ucd api_key net a) = [c]
         \<and> fetch net c = Inr data
         \<and> bind (bind (subscripts data [Key (py ''list'')]) py_slice5) py_iter = Inr items
         \<and> body (snd (get_forecast ucd api_key net a)) = Json fd
         \<and> subscripts fd [Key (py ''forecast'')] = Inr (PList entries)
         \<and> length entries = length items
         \<and> (\<forall>i<length items.
               field_rounded (items ! i) [Key (py ''main''), Key (py ''temp'')]
                 (entries ! i) [Key (py ''temperature'')]
               \<and> field_rounded (items ! i) [Key (py ''main''), Key (py ''feels_like'')]
                 (entries ! i) [Key (py ''feels_like'')]
               \<and> field_rounded (items ! i) [Key (py ''wind''), Key (py ''speed'')]
                 (entries ! i) [Key (py ''details''), Key (py ''wind_speed'')])"
    by blast
qed

theorem temperatures_and_speeds_rounded_witness:
  "status (snd (get_current_weather sample_ucd (py ''key'') (sample_net 200 (py ''OK'')) [])) = 200
   \<and> (\<exists>wd. body (snd (get_current_weather sample_ucd (py ''key'') (sample_net 200 (py ''OK'')) []))
               = Json wd
        \<and> field_rounded sample_data [Key (py ''main''), Key (py ''temp'')]
               wd [Key (py ''temperature''), Key (py ''current'')])
   \<and> status (snd (get_forecast sample_ucd (py ''key'') sample_forecast_net [])) = 200
   \<and> (\<exists>entries. response_field (snd (get_forecast sample_ucd (py ''key'') sample_forecast_net []))
          [Key (py ''forecast'')] = Inr (PList entries))"
proof -
  have f: "fetch (sample_net 200 (py ''OK'')) c = Inr sample_data" for c
    by (simp add: fetch_sample_net)
  show ?thesis
    using temperatures_and_speeds_rounded
            [where ucd = sample_ucd and api_key = "py ''key''"
               and net = "sample_net 200 (py ''OK'')" and a = "[]"]
          temperatures_and_speeds_rounded
            [where ucd = sample_ucd and api_key = "py ''key''"
               and net = sample_forecast_net and a = "[]"]
          sample_status [of 200 "py ''key''" "py ''OK''" "[]"] sample_get_forecast f
    by (auto simp: response_field_def)
qed

section \<open>The nearest double\<close>

text \<open>
  Two facts about the floating-point model itself: \<open>floor_log2\<close> finds the binade of a
  positive rational, and \<open>to_double\<close> rounds to a nearest representable value.
\<close>

lemma pow2_powi: "pow2 e = 2 powi e"
  by (simp add: pow2_def power_int_def field_simps)

lemma pow2_pos [simp]: "0 < pow2 e"
  by (simp add: pow2_powi)

lemma pow2_nonneg [simp]: "0 \<le> pow2 e"
  using pow2_pos [of e] by (rule less_imp_le)

lemma pow2_neq_0 [simp]: "pow2 e \<noteq> 0"
  by (simp add: pow2_powi)

lemma pow2_add: "pow2 (a + b) = pow2 a * pow2 b"
  by (simp add: pow2_powi power_int_add)

lemma pow2_of_nat: "pow2 (int n) = 2 ^ n"
  by (simp add: pow2_def)

lemma bitlen_pow2_bounds:
  assumes "0 < a"
  shows "pow2 (bitlen a - 1) \<le> of_int a \<and> of_int a < pow2 (bitlen a)"
proof -
  from bitlen_bounds [OF assms]
  have a1: "2 ^ nat (bitlen a - 1) \<le> a" and a2: "a < 2 ^ nat (bitlen a)"
    by simp_all
  have la: "1 \<le> bitlen a"
    using assms by (simp add: bitlen_alt_def)
  have "(of_int (2 ^ nat (bitlen a - 1)) :: rat) \<le> of_int a"
    using a1 by (simp only: of_int_le_iff)
  moreover have "(of_int a :: rat) < of_int (2 ^ nat (bitlen a))"
    using a2 by (simp only: of_int_less_iff)
  moreover have "pow2 (bitlen a - 1) = 2 ^ nat (bitlen a - 1)" "pow2 (bitlen a) = 2 ^ nat (bitlen a)"
    using la by (simp_all add: pow2_def)
  ultimately show ?thesis by simp
qed

lemma floor_log2_bounds:
  assumes "0 < q"
  shows "pow2 (floor_log2 q) \<le> q \<and> q < pow2 (floor_log2 q + 1)"
proof -
  obtain a b where ab: "quotient_of q = (a, b)"
    by (cases "quotient_of q")
  then have b: "0 < b" and q: "q = of_int a / of_int b"
    by (simp_all add: quotient_of_denom_pos quotient_of_div)
  with assms have a: "0 < a"
    by (simp add: zero_less_divide_iff)
  let ?e = "bitlen a - bitlen b"
  from bitlen_pow2_bounds [OF a]
  have pa: "pow2 (bitlen a - 1) \<le> of_int a" "of_int a < pow2 (bitlen a)"
    by simp_all
  from bitlen_pow2_bounds [OF b]
  have pb: "pow2 (bitlen b - 1) \<le> of_int b" "of_int b < pow2 (bitlen b)"
    by simp_all
  have lo: "pow2 (?e - 1) < q"
  proof -
    have "pow2 (?e - 1) * of_int b < pow2 (?e - 1) * pow2 (bitlen b)"
      using pb(2) by simp
    also have "\<dots> = pow2 (bitlen a - 1)"
      by (simp flip: pow2_add)
    also have "\<dots> \<le> of_int a" by (rule pa(1))
    finally show ?thesis
      using b by (simp add: q pos_less_divide_eq)
  qed
  have hi: "q < pow2 (?e + 1)"
  proof -
    have "of_int a < pow2 (bitlen a)" by (rule pa(2))
    also have "\<dots> = pow2 (?e + 1) * pow2 (bitlen b - 1)"
      by (simp flip: pow2_add)
    also have "\<dots> \<le> pow2 (?e + 1) * of_int b"
      using pb(1) by simp
    finally show ?thesis
      using b by (simp add: q pos_divide_less_eq)
  qed
  show ?thesis
  proof (cases "pow2 ?e \<le> q")
    case True
    then have "floor_log2 q = ?e"
      by (simp add: floor_log2_def ab)
    with True hi show ?thesis by simp
  next
    case False
    then have "floor_log2 q = ?e - 1"
      by (simp add: floor_log2_def ab)
    with False lo show ?thesis by simp
  qed
qed

lemma round_half_even_bounds:
  assumes "0 \<le> x" and "x < of_int n"
  shows "0 \<le> round_half_even x \<and> round_half_even x \<le> n"
proof -
  from assms(2) have "\<lfloor>x\<rfloor> < n" by (simp add: floor_less_iff)
  moreover from assms(1) have "0 \<le> \<lfloor>x\<rfloor>" by simp
  ultimately show ?thesis
    using round_half_even_cases [of x] by auto
qed

text \<open>
  \<open>to_double\<close> gives a representable value nearest to its argument: an integer multiple
  \<open>m\<close> of the unit in the last place of the binade of \<open>q\<close>, with at most 53 bits, at most
  half a unit away from \<open>q\<close>, and below \<open>2 ^ 1024\<close>.
\<close>

lemma to_double_nearest:
  assumes "0 < q" and "to_double q = Some r"
  shows "\<exists>m. r = of_int m * pow2 (max (floor_log2 q) (- 1022) - 52)
           \<and> 0 \<le> m \<and> m \<le> 2 ^ 53
           \<and> \<bar>r - q\<bar> \<le> pow2 (max (floor_log2 q) (- 1022) - 52) / 2
           \<and> r < pow2 1024"
proof -
  let ?e = "max (floor_log2 q) (- 1022)"
  let ?ulp = "pow2 (?e - 52)"
  let ?m = "round_half_even (q / ?ulp)"
  from assms have r: "r = of_int ?m * ?ulp" and lt: "r < pow2 1024"
    by (auto simp: to_double_def Let_def split: if_splits)
  have "q < pow2 (floor_log2 q + 1)"
    using floor_log2_bounds [OF assms(1)] by simp
  also have "\<dots> \<le> pow2 (?e + 1)"
    by (simp add: pow2_powi power_int_increasing)
  also have "\<dots> = 2 ^ 53 * ?ulp"
  proof -
    have "?e + 1 = 53 + (?e - 52)" by simp
    then have "pow2 (?e + 1) = pow2 53 * ?ulp"
      by (simp only: pow2_add)
    then show ?thesis by (simp add: pow2_def)
  qed
  finally have "q / ?ulp < of_int (2 ^ 53)"
    by (simp add: pos_divide_less_eq)
  moreover have "0 \<le> q / ?ulp"
    using assms(1) by (intro divide_nonneg_pos) simp_all
  ultimately have m: "0 \<le> ?m" "?m \<le> 2 ^ 53"
    using round_half_even_bounds [of "q / ?ulp" "2 ^ 53"] by simp_all
  have "\<bar>of_int ?m - q / ?ulp\<bar> \<le> 1 / 2"
    by (rule round_half_even_error)
  then have "\<bar>of_int ?m - q / ?ulp\<bar> * ?ulp \<le> 1 / 2 * ?ulp"
    by (rule mult_right_mono) simp
  moreover have "\<bar>of_int ?m - q / ?ulp\<bar> * ?ulp = \<bar>r - q\<bar>"
  proof -
    have "\<bar>of_int ?m - q / ?ulp\<bar> * ?ulp = \<bar>(of_int ?m - q / ?ulp) * ?ulp\<bar>"
      by (simp add: abs_mult)
    also have "(of_int ?m - q / ?ulp) * ?ulp = r - q"
      by (simp add: r left_diff_distrib)
    finally show ?thesis .
  qed
  ultimately have "\<bar>r - q\<bar> \<le> ?ulp / 2" by simp
  with r m lt show ?thesis by blast
qed

section \<open>Exact and nearly exact quotients\<close>

lemma round_half_even_of_int [simp]: "round_half_even (of_int k) = k"
  by (simp add: round_half_even_def)

lemma pow2_mono: "a \<le> b \<Longrightarrow> pow2 a \<le> pow2 b"
  by (simp add: pow2_powi power_int_increasing)

lemma pow2_less_imp: "pow2 a < pow2 b \<Longrightarrow> a < b"
  using pow2_mono [of b a] by (cases "a < b") auto

lemma floor_log2_less:
  assumes "0 < q" and "q < pow2 n"
  shows "floor_log2 q < n"
proof -
  from floor_log2_bounds [OF assms(1)] assms(2) have "pow2 (floor_log2 q) < pow2 n"
    by simp
  then show ?thesis by (rule pow2_less_imp)
qed

lemma floor_log2_ge:
  assumes "0 < q" and "pow2 n \<le> q"
  shows "n \<le> floor_log2 q"
proof -
  from floor_log2_bounds [OF assms(1)] assms(2) have "pow2 n < pow2 (floor_log2 q + 1)"
    by simp
  then have "n < floor_log2 q + 1" by (rule pow2_less_imp)
  then show ?thesis by simp
qed

lemma mantissa_bound:
  assumes "0 < q"
  shows "round_half_even (q / pow2 (max (floor_log2 q) (- 1022) - 52)) \<le> 2 ^ 53"
proof -
  let ?e = "max (floor_log2 q) (- 1022)"
  let ?ulp = "pow2 (?e - 52)"
  have "q < pow2 (floor_log2 q + 1)"
    using floor_log2_bounds [OF assms] by simp
  also have "\<dots> \<le> pow2 (?e + 1)"
    by (rule pow2_mono) simp
  also have "\<dots> = 2 ^ 53 * ?ulp"
  proof -
    have "?e + 1 = 53 + (?e - 52)" by simp
    then have "pow2 (?e + 1) = pow2 53 * ?ulp"
      by (simp only: pow2_add)
    then show ?thesis by (simp add: pow2_def)
  qed
  finally have "q / ?ulp < of_int (2 ^ 53)"
    by (simp add: pos_divide_less_eq)
  moreover have "0 \<le> q / ?ulp"
    using assms by (intro divide_nonneg_pos) simp_all
  ultimately show ?thesis
    using round_half_even_bounds [of "q / ?ulp" "2 ^ 53"] by simp
qed

text \<open>A magnitude below \<open>2 ^ 1023\<close> has a double.\<close>

lemma to_double_Some:
  assumes "0 \<le> q" and "q < pow2 1023"
  shows "\<exists>r. to_double q = Some r"
proof (cases "q = 0")
  case True
  then show ?thesis by (simp add: to_double_def)
next
  case False
  with assms have q: "0 < q" by simp
  let ?e = "max (floor_log2 q) (- 1022)"
  let ?ulp = "pow2 (?e - 52)"
  let ?m = "round_half_even (q / ?ulp)"
  have "floor_log2 q < 1023"
    using q assms(2) by (rule floor_log2_less)
  then have e: "?e + 1 \<le> 1023" by simp
  have "of_int ?m * ?ulp \<le> of_int (2 ^ 53) * ?ulp"
    using mantissa_bound [OF q] by (intro mult_right_mono) (simp_all del: of_int_power)
  also have "\<dots> = pow2 53 * ?ulp"
    by (simp add: pow2_def)
  also have "\<dots> = pow2 (?e + 1)"
  proof -
    have "?e + 1 = 53 + (?e - 52)" by simp
    then show ?thesis by (simp only: pow2_add)
  qed
  also have "\<dots> \<le> pow2 1023"
    using e by (rule pow2_mono)
  also have "\<dots> < pow2 1024"
    by (simp add: pow2_powi)
  finally have "\<not> pow2 1024 \<le> of_int ?m * ?ulp"
    by simp
  with False show ?thesis
    by (simp add: to_double_def Let_def)
qed

text \<open>An integer below \<open>2 ^ 53\<close> is a double.\<close>

lemma to_double_of_int:
  assumes "0 \<le> n" and "n < 2 ^ 53"
  shows "to_double (of_int n) = Some (of_int n)"
proof (cases "n = 0")
  case True
  then show ?thesis by (simp add: to_double_def)
next
  case False
  with assms have n: "0 < n" by simp
  let ?q = "of_int n :: rat"
  let ?e = "floor_log2 ?q"
  have q: "0 < ?q" using n by simp
  have "pow2 0 \<le> ?q"
    using n by (simp add: pow2_def)
  with q have e0: "0 \<le> ?e" by (rule floor_log2_ge)
  have "?q < pow2 53"
  proof -
    have "?q < of_int (2 ^ 53)"
      using assms(2) by (simp only: of_int_less_iff)
    then show ?thesis by (simp add: pow2_def)
  qed
  with q have e53: "?e < 53" by (rule floor_log2_less)
  let ?k = "nat (52 - ?e)"
  have mx: "max ?e (- 1022) = ?e" using e0 by simp
  have ulp: "pow2 (?e - 52) = 1 / 2 ^ ?k"
  proof (cases "?e = 52")
    case True
    then show ?thesis by (simp add: pow2_def)
  next
    case False
    with e53 have "?e - 52 < 0" by simp
    moreover have "nat (- (?e - 52)) = ?k" by simp
    ultimately show ?thesis by (simp add: pow2_def)
  qed
  have "?q / pow2 (?e - 52) = of_int (n * 2 ^ ?k)"
    by (simp add: ulp)
  then have m: "round_half_even (?q / pow2 (?e - 52)) = n * 2 ^ ?k"
    by (simp only: round_half_even_of_int)
  have r: "of_int (n * 2 ^ ?k) * pow2 (?e - 52) = ?q"
    by (simp add: ulp)
  have "?q < pow2 1024"
  proof -
    have "?q < pow2 53" by fact
    also have "\<dots> \<le> pow2 1024" by (rule pow2_mono) simp
    finally show ?thesis .
  qed
  then have big: "\<not> pow2 1024 \<le> ?q" by simp
  have val: "of_int (round_half_even (?q / pow2 (max ?e (- 1022) - 52)))
               * pow2 (max ?e (- 1022) - 52) = ?q"
    unfolding mx m by (rule r)
  show ?thesis
    unfolding to_double_def Let_def val using False big by simp
qed

text \<open>
  In the normal range the double of \<open>q\<close> is \<open>q\<close> within one part in \<open>2 ^ 53\<close>.
\<close>

lemma to_double_relative_error:
  assumes "pow2 (- 1022) \<le> q" and "to_double q = Some r"
  shows "\<bar>r - q\<bar> \<le> q / 2 ^ 53"
proof -
  have q: "0 < q"
    using assms(1) pow2_pos [of "- 1022"] by (rule less_le_trans [rotated])
  let ?e = "floor_log2 q"
  from q assms(1) have e: "- 1022 \<le> ?e" by (rule floor_log2_ge)
  then have mx: "max ?e (- 1022) = ?e" by simp
  from to_double_nearest [OF q assms(2)] mx
  have "\<bar>r - q\<bar> \<le> pow2 (?e - 52) / 2" by auto
  also have "pow2 (?e - 52) / 2 = pow2 ?e / 2 ^ 53"
  proof -
    have "pow2 (52 + (?e - 52)) = pow2 52 * pow2 (?e - 52)"
      by (rule pow2_add)
    then have "pow2 ?e = pow2 52 * pow2 (?e - 52)"
      by simp
    then show ?thesis by (simp add: pow2_def)
  qed
  also have "\<dots> \<le> q / 2 ^ 53"
    using floor_log2_bounds [OF q] by (simp add: divide_right_mono)
  finally show ?thesis .
qed

lemma lit_1609_34_bounds:
  "(0 :: rat) < 7077952172180111 / 2 ^ 42" "(1 :: rat) \<le> 7077952172180111 / 2 ^ 42"
  "(7077952172180111 / 2 ^ 42 :: rat) \<le> 2048"
  by simp_all

text \<open>
  What \<open>v / 1000\<close> and \<open>v / 1609.34\<close> are, as numbers. For an \<open>int\<close> \<open>i\<close> below \<open>2 ^ 53\<close>
  in magnitude the result has the sign of \<open>i\<close> and its magnitude is the double of the
  exact quotient, which is the quotient within one part in \<open>2 ^ 53\<close>; for a finite
  \<open>float\<close> it is the double of the exact quotient of the two doubles.
\<close>

lemma truediv_quotient:
  assumes q: "py_truediv v (if metric then PInt 1000 else PFloat lit_1609_34) = Inr q"
    and D: "D = (if metric then 1000 else 7077952172180111 / 2 ^ 42)"
  shows "(\<forall>i. as_int v = Some i \<and> \<bar>i\<bar> < 2 ^ 53 \<longrightarrow>
            (\<exists>r. q = PFloat (Finite (i < 0) r)
               \<and> to_double (of_int \<bar>i\<bar> / D) = Some r
               \<and> \<bar>r - of_int \<bar>i\<bar> / D\<bar> \<le> of_int \<bar>i\<bar> / D / 2 ^ 53))
         \<and> (\<forall>s m r. v = PFloat (Finite s m) \<and> to_double (m / D) = Some r \<longrightarrow>
               q = PFloat (Finite s r))"
proof (intro conjI allI impI)
  fix i
  assume "as_int v = Some i \<and> \<bar>i\<bar> < 2 ^ 53"
  then have i: "as_int v = Some i" and small: "\<bar>i\<bar> < 2 ^ 53" by simp_all
  have Dpos: "0 < D" and D1: "1 \<le> D" and D2: "D \<le> 2048"
    using lit_1609_34_bounds by (simp_all add: D)
  let ?x = "of_int \<bar>i\<bar> / D"
  have x0: "0 \<le> ?x" using Dpos by simp
  have "?x \<le> of_int \<bar>i\<bar>"
    using D1 Dpos by (simp add: pos_divide_le_eq mult_le_cancel_left1)
  also have "(of_int \<bar>i\<bar> :: rat) < of_int (2 ^ 53)"
    using small by (simp only: of_int_less_iff)
  also have "(of_int (2 ^ 53) :: rat) = pow2 53"
    by (simp add: pow2_def)
  also have "pow2 53 \<le> pow2 1023" by (rule pow2_mono) simp
  finally have "?x < pow2 1023" .
  with x0 obtain r where r: "to_double ?x = Some r"
    using to_double_Some by blast
  have exact: "to_double (of_int \<bar>i\<bar>) = Some (of_int \<bar>i\<bar>)"
    using small by (intro to_double_of_int) simp_all
  have qr: "q = PFloat (Finite (i < 0) r)"
  proof (cases metric)
    case True
    with q i r D show ?thesis
      by (auto simp: py_truediv_def int_truediv_def)
  next
    case False
    with q i r D exact show ?thesis
      by (auto simp: py_truediv_def float_of_int_def lit_1609_34_def split: pyval.splits)
  qed
  have err: "\<bar>r - ?x\<bar> \<le> ?x / 2 ^ 53"
  proof (cases "i = 0")
    case True
    with r show ?thesis by (simp add: to_double_def)
  next
    case False
    then have "(1 :: rat) \<le> of_int \<bar>i\<bar>"
      by (simp flip: of_int_abs)
    then have "1 / D \<le> ?x"
      using Dpos by (simp add: divide_right_mono)
    moreover have "1 / 2048 \<le> 1 / D"
      using D2 Dpos by (simp add: frac_le)
    moreover have "pow2 (- 1022) \<le> pow2 (- 11)" by (rule pow2_mono) simp
    moreover have "pow2 (- 11) = 1 / 2048" by (simp add: pow2_def)
    ultimately have "pow2 (- 1022) \<le> ?x" by linarith
    then show ?thesis using r by (rule to_double_relative_error)
  qed
  from qr r err show "\<exists>r. q = PFloat (Finite (i < 0) r)
               \<and> to_double (of_int \<bar>i\<bar> / D) = Some r
               \<and> \<bar>r - of_int \<bar>i\<bar> / D\<bar> \<le> of_int \<bar>i\<bar> / D / 2 ^ 53"
    by blast
next
  fix s m r
  assume "v = PFloat (Finite s m) \<and> to_double (m / D) = Some r"
  then have v: "v = PFloat (Finite s m)" and r: "to_double (m / D) = Some r" by simp_all
  have k: "to_double (of_int \<bar>1000\<bar>) = Some (of_int \<bar>1000\<bar>)"
    by (intro to_double_of_int) simp_all
  show "q = PFloat (Finite s r)"
  proof (cases metric)
    case True
    with q v r D k show ?thesis
      by (auto simp: py_truediv_def float_of_int_def)
  next
    case False
    with q v r D show ?thesis
      by (auto simp: py_truediv_def lit_1609_34_def)
  qed
qed

section \<open>Visibility\<close>

lemma py_get_Inr:
  assumes "py_get data k dflt = Inr v"
  shows "\<exists>d. data = PDict d \<and> v = (case map_of d k of Some x \<Rightarrow> x | None \<Rightarrow> dflt)"
  using assms by (cases data) auto

lemma visibility_of_Inr:
  assumes "visibility_of units data = Inr out"
  shows "\<exists>d q. data = PDict d
           \<and> py_truediv (case map_of d (py ''visibility'') of Some x \<Rightarrow> x | None \<Rightarrow> PInt 10000)
                (if units = py ''metric'' then PInt 1000 else PFloat lit_1609_34) = Inr q
           \<and> py_round1 q = Inr out"
proof (cases "units = py ''metric''")
  case True
  with assms obtain v q where "py_get data (py ''visibility'') (PInt 10000) = Inr v"
    "py_truediv v (PInt 1000) = Inr q" "py_round1 q = Inr out"
    unfolding visibility_of_def by (auto elim!: bindE)
  with py_get_Inr [OF this(1)] True show ?thesis by auto
next
  case False
  with assms obtain v q where "py_get data (py ''visibility'') (PInt 10000) = Inr v"
    "py_truediv v (PFloat lit_1609_34) = Inr q" "py_round1 q = Inr out"
    unfolding visibility_of_def by (auto elim!: bindE)
  with py_get_Inr [OF this(1)] False show ?thesis by auto
qed

lemma current_visibility:
  assumes "status (snd (get_current_weather ucd api_key net a)) = 200"
  shows "\<exists>c d wd q out. fst (get_current_weather ucd api_key net a) = [c]
           \<and> fetch net c = Inr (PDict d)
           \<and> body (snd (get_current_weather ucd api_key net a)) = Json wd
           \<and> py_truediv
                (case map_of d (py ''visibility'') of Some x \<Rightarrow> x | None \<Rightarrow> PInt 10000)
                (if args_get a (py ''units'') (py ''metric'') = py ''metric''
                 then PInt 1000 else PFloat lit_1609_34) = Inr q
           \<and> py_round1 q = Inr out
           \<and> rounded_1dp q out
           \<and> subscripts wd [Key (py ''details''), Key (py ''visibility'')] = Inr out"
proof -
  obtain calls r where cr: "get_current_weather ucd api_key net a = (calls, r)"
    by (cases "get_current_weather ucd api_key net a")
  with assms have "status r = 200" by simp
  from get_current_weather_success [OF cr this] obtain c data wd where
    c: "calls = [c]" "fetch net c = Inr data" "body r = Json wd"
    and wd: "weather_data ucd (args_get a (py ''units'') (py ''metric'')) data = Inr wd"
    by blast
  from weather_data_parts [OF wd] obtain location temperature weather details system where
    d: "details_part (args_get a (py ''units'') (py ''metric'')) data = Inr details"
    and wd_eq: "wd = PDict
              [(py ''location'', location),
               (py ''temperature'', temperature),
               (py ''weather'', weather),
               (py ''details'', details),
               (py ''system'', system)]"
    by blast
  from details_part_fields [OF d] obtain humidity pressure v wind_speed wind_deg cloudiness
      visibility where
    vis: "visibility_of (args_get a (py ''units'') (py ''metric'')) data = Inr visibility"
    and d_eq: "details = PDict
              [(py ''humidity'', humidity),
               (py ''pressure'', pressure),
               (py ''wind_speed'', wind_speed),
               (py ''wind_deg'', wind_deg),
               (py ''cloudiness'', cloudiness),
               (py ''visibility'', visibility)]"
    by blast
  from visibility_of_Inr [OF vis] obtain dict q where
    q: "data = PDict dict"
       "py_truediv
          (case map_of dict (py ''visibility'') of Some x \<Rightarrow> x | None \<Rightarrow> PInt 10000)
          (if args_get a (py ''units'') (py ''metric'') = py ''metric''
           then PInt 1000 else PFloat lit_1609_34) = Inr q"
       "py_round1 q = Inr visibility"
    by blast
  have "subscripts wd [Key (py ''details''), Key (py ''visibility'')] = Inr visibility"
    by (simp add: wd_eq d_eq)
  with c q py_round1_rounded [OF q(3)] cr show ?thesis by auto
qed

lemma to_double_1609_34: "to_double (160934 / 100) = Some (7077952172180111 / 2 ^ 42)"
  by code_simp

lemma to_double_6_2: "to_double (62 / 10) = Some (6980579422424269 / 2 ^ 50)"
  by code_simp

text \<open>
  C4. In a successful current-weather response, \<open>details.visibility\<close> is
  \<open>round(v / divisor, 1)\<close>, where \<open>v\<close> is the provider's \<open>visibility\<close>, or 10000 when the
  provider's data have no such key, and the divisor is 1000 for \<open>units=metric\<close> and the
  double 1609.34 otherwise. The quotient \<open>q\<close> is the number \<open>v / D\<close> as a double: for an
  integer \<open>v\<close> below \<open>2 ^ 53\<close> in magnitude the double of the exact quotient, which differs
  from it by at most one part in \<open>2 ^ 53\<close>, and for a finite float the double of the quotient
  of the two doubles. The response carries \<open>q\<close> rounded to one decimal place. For
  \<open>v = 10000\<close> it is 10.0 with metric units and the double 6.2 otherwise.
\<close>

theorem visibility_conversion:
  "(status (snd (get_current_weather ucd api_key net a)) = 200 \<longrightarrow>
      (\<exists>c d wd v D q out. fst (get_current_weather ucd api_key net a) = [c]
         \<and> fetch net c = Inr (PDict d)
         \<and> body (snd (get_current_weather ucd api_key net a)) = Json wd
         \<and> v = (case map_of d (py ''visibility'') of Some x \<Rightarrow> x | None \<Rightarrow> PInt 10000)
         \<and> D = (if args_get a (py ''units'') (py ''metric'') = py ''metric''
                 then 1000 else 7077952172180111 / 2 ^ 42)
         \<and> py_truediv v
              (if args_get a (py ''units'') (py ''metric'') = py ''metric''
               then PInt 1000 else PFloat lit_1609_34) = Inr q
         \<and> (\<forall>i. as_int v = Some i \<and> \<bar>i\<bar> < 2 ^ 53 \<longrightarrow>
               (\<exists>r. q = PFloat (Finite (i < 0) r)
                  \<and> to_double (of_int \<bar>i\<bar> / D) = Some r
                  \<and> \<bar>r - of_int \<bar>i\<bar> / D\<bar> \<le> of_int \<bar>i\<bar> / D / 2 ^ 53))
         \<and> (\<forall>s m r. v = PFloat (Finite s m) \<and> to_double (m / D) = Some r \<longrightarrow>
               q = PFloat (Finite s r))
         \<and> py_round1 q = Inr out
         \<and> rounded_1dp q out
         \<and> subscripts wd [Key (py ''details''), Key (py ''visibility'')] = Inr out))
   \<and> to_double (160934 / 100) = Some (7077952172180111 / 2 ^ 42)
   \<and> lit_1609_34 = Finite False (7077952172180111 / 2 ^ 42)
   \<and> visibility_of (py ''metric'') (PDict [(py ''visibility'', PInt 10000)])
       = Inr (PFloat (Finite False 10))
   \<and> visibility_of (py ''metric'') (PDict []) = Inr (PFloat (Finite False 10))
   \<and> to_double (62 / 10) = Some (6980579422424269 / 2 ^ 50)
   \<and> visibility_of (py ''imperial'') (PDict [(py ''visibility'', PInt 10000)])
       = Inr (PFloat (Finite False (6980579422424269 / 2 ^ 50)))
   \<and> visibility_of (py ''imperial'') (PDict [])
       = Inr (PFloat (Finite False (6980579422424269 / 2 ^ 50)))"
proof (intro conjI)
  show "status (snd (get_current_weather ucd api_key net a)) = 200 \<longrightarrow>
      (\<exists>c d wd v D q out. fst (get_current_weather ucd api_key net a) = [c]
         \<and> fetch net c = Inr (PDict d)
         \<and> body (snd (get_current_weather ucd api_key net a)) = Json wd
         \<and> v = (case map_of d (py ''visibility'') of Some x \<Rightarrow> x | None \<Rightarrow> PInt 10000)
         \<and> D = (if args_get a (py ''units'') (py ''metric'') = py ''metric''
                 then 1000 else 7077952172180111 / 2 ^ 42)
         \<and> py_truediv v
              (if args_get a (py ''units'') (py ''metric'') = py ''metric''
               then PInt 1000 else PFloat lit_1609_34) = Inr q
         \<and> (\<forall>i. as_int v = Some i \<and> \<bar>i\<bar> < 2 ^ 53 \<longrightarrow>
               (\<exists>r. q = PFloat (Finite (i < 0) r)
                  \<and> to_double (of_int \<bar>i\<bar> / D) = Some r
                  \<and> \<bar>r - of_int \<bar>i\<bar> / D\<bar> \<le> of_int \<bar>i\<bar> / D / 2 ^ 53))
         \<and> (\<forall>s m r. v = PFloat (Finite s m) \<and> to_double (m / D) = Some r \<longrightarrow>
               q = PFloat (Finite s r))
         \<and> py_round1 q = Inr out
         \<and> rounded_1dp q out
         \<and> subscripts wd [Key (py ''details''), Key (py ''visibility'')] = Inr out)"
  proof
    assume "status (snd (get_current_weather ucd api_key net a)) = 200"
    from current_visibility [OF this] obtain c d wd q out where
      v: "fst (get_current_weather ucd api_key net a) = [c]"
         "fetch net c = Inr (PDict d)"
         "body (snd (get_current_weather ucd api_key net a)) = Json wd"
         "py_truediv
            (case map_of d (py ''visibility'') of Some x \<Rightarrow> x | None \<Rightarrow> PInt 10000)
            (if args_get a (py ''units'') (py ''metric'') = py ''metric''
             then PInt 1000 else PFloat lit_1609_34) = Inr q"
         "py_round1 q = Inr out" "rounded_1dp q out"
         "subscripts wd [Key (py ''details''), Key (py ''visibility'')] = Inr out"
      by blast
    from truediv_quotient [OF v(4) refl] v
    show "\<exists>c d wd v D q out. fst (get_current_weather ucd api_key net a) = [c]
         \<and> fetch net c = Inr (PDict d)
         \<and> body (snd (get_current_weather ucd api_key net a)) = Json wd
         \<and> v = (case map_of d (py ''visibility'') of Some x \<Rightarrow> x | None \<Rightarrow> PInt 10000)
         \<and> D = (if args_get a (py ''units'') (py ''metric'') = py ''metric''
                 then 1000 else 7077952172180111 / 2 ^ 42)
         \<and> py_truediv v
              (if args_get a (py ''units'') (py ''metric'') = py ''metric''
               then PInt 1000 else PFloat lit_1609_34) = Inr q
         \<and> (\<forall>i. as_int v = Some i \<and> \<bar>i\<bar> < 2 ^ 53 \<longrightarrow>
               (\<exists>r. q = PFloat (Finite (i < 0) r)
                  \<and> to_double (of_int \<bar>i\<bar> / D) = Some r
                  \<and> \<bar>r - of_int \<bar>i\<bar> / D\<bar> \<le> of_int \<bar>i\<bar> / D / 2 ^ 53))
         \<and> (\<forall>s m r. v = PFloat (Finite s m) \<and> to_double (m / D) = Some r \<longrightarrow>
               q = PFloat (Finite s r))
         \<and> py_round1 q = Inr out
         \<and> rounded_1dp q out
         \<and> subscripts wd [Key (py ''details''), Key (py ''visibility'')] = Inr out"
      by blast
  qed
  show "to_double (160934 / 100) = Some (7077952172180111 / 2 ^ 42)"
    by (rule to_double_1609_34)
  show "lit_1609_34 = Finite False (7077952172180111 / 2 ^ 42)"
    by (rule lit_1609_34_def)
  show "visibility_of (py ''metric'') (PDict [(py ''visibility'', PInt 10000)])
          = Inr (PFloat (Finite False 10))"
    by (simp add: visibility_of_def visibility_10000_metric)
  show "visibility_of (py ''metric'') (PDict []) = Inr (PFloat (Finite False 10))"
    by (simp add: visibility_of_def visibility_10000_metric)
  show "to_double (62 / 10) = Some (6980579422424269 / 2 ^ 50)"
    by (rule to_double_6_2)
  show "visibility_of (py ''imperial'') (PDict [(py ''visibility'', PInt 10000)])
          = Inr (PFloat (Finite False (6980579422424269 / 2 ^ 50)))"
    by (simp add: visibility_of_def visibility_10000_imperial)
  show "visibility_of (py ''imperial'') (PDict [])
          = Inr (PFloat (Finite False (6980579422424269 / 2 ^ 50)))"
    by (simp add: visibility_of_def visibility_10000_imperial)
qed

theorem visibility_conversion_witness:
  "status (snd (get_current_weather sample_ucd (py ''key'') (sample_net 200 (py ''OK'')) []))
     = 200
   \<and> response_field
        (snd (get_current_weather sample_ucd (py ''key'') (sample_net 200 (py ''OK'')) []))
        [Key (py ''details''), Key (py ''visibility'')] = Inr (PFloat (Finite False 10))"
proof -
  have f: "fetch (sample_net 200 (py ''OK'')) c = Inr sample_data" for c
    by (simp add: fetch_sample_net)
  have st: "status (snd (get_current_weather sample_ucd (py ''key'')
                (sample_net 200 (py ''OK'')) [])) = 200"
    using sample_status [of 200 "py ''key''" "py ''OK''" "[]"] by simp
  from visibility_conversion
         [where ucd = sample_ucd and api_key = "py ''key''"
            and net = "sample_net 200 (py ''OK'')" and a = "[]",
          THEN conjunct1, rule_format, OF st]
  obtain c d wd v D q out where
    v: "fetch (sample_net 200 (py ''OK'')) c = Inr (PDict d)"
       "body (snd (get_current_weather sample_ucd (py ''key'')
                (sample_net 200 (py ''OK'')) [])) = Json wd"
       "v = (case map_of d (py ''visibility'') of Some x \<Rightarrow> x | None \<Rightarrow> PInt 10000)"
       "D = (if args_get [] (py ''units'') (py ''metric'') = py ''metric''
             then 1000 else 7077952172180111 / 2 ^ 42)"
       "\<forall>i. as_int v = Some i \<and> \<bar>i\<bar> < 2 ^ 53 \<longrightarrow>
               (\<exists>r. q = PFloat (Finite (i < 0) r)
                  \<and> to_double (of_int \<bar>i\<bar> / D) = Some r
                  \<and> \<bar>r - of_int \<bar>i\<bar> / D\<bar> \<le> of_int \<bar>i\<bar> / D / 2 ^ 53)"
       "py_round1 q = Inr out"
       "subscripts wd [Key (py ''details''), Key (py ''visibility'')] = Inr out"
    by blast
  from v(1) f have "sample_data = PDict d" by simp
  then have "map_of d (py ''visibility'') = Some (PInt 10000)"
    by (auto simp: sample_data_def)
  with v(3) have vv: "v = PInt 10000" by simp
  from v(4) have DD: "D = 1000" by (simp add: args_get_def)
  from v(5) vv have "\<exists>r. q = PFloat (Finite False r) \<and> to_double (of_int \<bar>10000\<bar> / D) = Some r"
    by force
  with DD to_double_10 have "q = PFloat (Finite False 10)"
    by auto
  with v(6) float_round1_10 have "out = PFloat (Finite False 10)"
    by simp
  with v(2,7) st show ?thesis
    by (simp add: response_field_def)
qed

end
